theory Spec2Isabelle
  imports Complex_Main
begin

section \<open>Values of the raw state and of the payload\<close>

text \<open>
  The collector works on the document that \<^verbatim>\<open>response.json()\<close> returns and builds
  another such document. Both are Python values made of \<^verbatim>\<open>None\<close>, booleans, integers,
  floats, strings, lists and dictionaries with string keys. A dictionary is kept as an
  association list in insertion order and read with \<^const>\<open>map_of\<close>. A float is kept as
  the rational number it denotes, so the model covers the finite doubles.
\<close>

datatype json =
    JNull
  | JBool bool
  | JInt int
  | JFloat rat
  | JStr string
  | JArr "json list"
  | JObj "(string \<times> json) list"

type_synonym dict = "(string \<times> json) list"

text \<open>Truth value of a Python object, as \<^verbatim>\<open>if x\<close>, \<^verbatim>\<open>x and y\<close>, \<^verbatim>\<open>x or y\<close> test it.\<close>

fun truthy :: "json \<Rightarrow> bool" where
  "truthy JNull = False"
| "truthy (JBool b) = b"
| "truthy (JInt i) = (i \<noteq> 0)"
| "truthy (JFloat r) = (r \<noteq> 0)"
| "truthy (JStr s) = (s \<noteq> [])"
| "truthy (JArr xs) = (xs \<noteq> [])"
| "truthy (JObj kvs) = (kvs \<noteq> [])"

text \<open>\<^verbatim>\<open>d.get(k, default)\<close> and \<^verbatim>\<open>d.get(k)\<close> on a dictionary.\<close>

definition dict_get :: "dict \<Rightarrow> string \<Rightarrow> json \<Rightarrow> json" where
  "dict_get d k dflt = (case map_of d k of None \<Rightarrow> dflt | Some v \<Rightarrow> v)"

definition dict_get_none :: "dict \<Rightarrow> string \<Rightarrow> json" where
  "dict_get_none d k = dict_get d k JNull"

section \<open>Exceptions\<close>

text \<open>
  The exceptions that the modelled code can raise. The last five are
  \<^verbatim>\<open>requests.exceptions.RequestException\<close> and subclasses of it: the ones the code names
  and the one that \<^verbatim>\<open>response.json()\<close> raises on a body that is not JSON.
\<close>

datatype exn =
    AttributeError
  | TypeError
  | ValueError
  | OverflowError
  | ZoneInfoNotFoundError
  | ConnectionError
  | Timeout
  | HTTPError
  | JSONDecodeError
  | RequestException

text \<open>Sequencing of a computation that may raise: the first exception ends the run.\<close>

definition bnd :: "exn + 'a \<Rightarrow> ('a \<Rightarrow> exn + 'b) \<Rightarrow> exn + 'b" where
  "bnd m f = (case m of Inl e \<Rightarrow> Inl e | Inr x \<Rightarrow> f x)"

section \<open>Python numbers\<close>

text \<open>The numbers among the values, the rational a number denotes, and \<^verbatim>\<open>-x\<close>.\<close>

fun is_number :: "json \<Rightarrow> bool" where
  "is_number (JInt i) = True"
| "is_number (JFloat r) = True"
| "is_number _ = False"

fun num_val :: "json \<Rightarrow> rat" where
  "num_val (JInt i) = of_int i"
| "num_val (JFloat r) = r"
| "num_val (JBool b) = (if b then 1 else 0)"
| "num_val _ = 0"

fun py_neg :: "json \<Rightarrow> json" where
  "py_neg (JInt i) = JInt (- i)"
| "py_neg (JFloat r) = JFloat (- r)"
| "py_neg x = x"

text \<open>
  \<^verbatim>\<open>round(x)\<close> on a float rounds to the nearest integer and sends a tie to the even
  neighbour; it is exact on the value of the double.
\<close>

definition rhe :: "rat \<Rightarrow> int" where
  "rhe x = (let f = \<lfloor>x\<rfloor>; d = x - of_int f
            in if d < 1 / 2 then f else if 1 / 2 < d then f + 1
               else if even f then f else f + 1)"

text \<open>
  Rounding of a rational to the nearest double (binary64, ties to even, subnormals
  included). \<open>None\<close> stands for a result outside the finite range. Negative zero is
  not distinguished from zero.
\<close>

fun bitlen :: "nat \<Rightarrow> nat" where
  "bitlen n = (if n = 0 then 0 else Suc (bitlen (n div 2)))"

declare bitlen.simps [simp del]

definition pow2 :: "int \<Rightarrow> rat" where
  "pow2 q = (if 0 \<le> q then 2 ^ nat q else 1 / 2 ^ nat (- q))"

text \<open>
  The same power of two by repeated squaring; it serves as the code equation of
  \<^const>\<open>pow2\<close>, so that concrete values are evaluated quickly.
\<close>

definition sq :: "rat \<Rightarrow> rat" where
  "sq x = x * x"

fun pow2_fast :: "nat \<Rightarrow> rat" where
  "pow2_fast n = (if n = 0 then 1
                  else if even n then sq (pow2_fast (n div 2))
                  else 2 * sq (pow2_fast (n div 2)))"

declare pow2_fast.simps [simp del]

definition ilog2 :: "rat \<Rightarrow> int" where
  "ilog2 a = (if 1 \<le> a then int (bitlen (nat \<lfloor>a\<rfloor>)) - 1
              else - int (bitlen (nat (\<lceil>1 / a\<rceil> - 1))))"

definition fl64 :: "rat \<Rightarrow> rat option" where
  "fl64 x = (if x = 0 then Some 0
             else let a = \<bar>x\<bar>;
                      q = max (ilog2 a - 52) (- 1074);
                      r = of_int (rhe (a / pow2 q)) * pow2 q
                  in if pow2 1024 \<le> r then None else Some (if x < 0 then - r else r))"

text \<open>
  A float operation of the source that rounds its result. Where Python raises on a
  result that is too large the model raises the same; where Python would go on with
  \<^verbatim>\<open>inf\<close> the model, which has no infinities, ends the run with \<^const>\<open>OverflowError\<close> too.
\<close>

definition to_float :: "rat \<Rightarrow> exn + rat" where
  "to_float x = (case fl64 x of None \<Rightarrow> Inl OverflowError | Some r \<Rightarrow> Inr r)"

text \<open>\<^verbatim>\<open>abs(x)\<close>: a bool is an int; anything that is not a number raises.\<close>

fun py_abs :: "json \<Rightarrow> exn + json" where
  "py_abs (JInt i) = Inr (JInt \<bar>i\<bar>)"
| "py_abs (JFloat r) = Inr (JFloat \<bar>r\<bar>)"
| "py_abs (JBool b) = Inr (JInt (if b then 1 else 0))"
| "py_abs _ = Inl TypeError"

text \<open>\<^verbatim>\<open>round(x)\<close> with one argument returns an int.\<close>

fun py_round :: "json \<Rightarrow> exn + int" where
  "py_round (JInt i) = Inr i"
| "py_round (JFloat r) = Inr (rhe r)"
| "py_round (JBool b) = Inr (if b then 1 else 0)"
| "py_round _ = Inl TypeError"

text \<open>
  \<^verbatim>\<open>round(x, n)\<close> with \<open>n\<close> digits (\<open>n \<ge> 0\<close> in the source): an int stays as it is, a float
  is rounded to the decimal with \<open>n\<close> digits after the point (ties of the exact value
  to even) and that decimal is read back as a double.
\<close>

fun py_round_nd :: "json \<Rightarrow> nat \<Rightarrow> exn + json" where
  "py_round_nd (JInt i) n = Inr (JInt i)"
| "py_round_nd (JFloat r) n =
     bnd (to_float (of_int (rhe (r * 10 ^ n)) / 10 ^ n)) (\<lambda>q. Inr (JFloat q))"
| "py_round_nd (JBool b) n = Inr (JInt (if b then 1 else 0))"
| "py_round_nd _ n = Inl TypeError"

text \<open>\<^verbatim>\<open>x / k\<close> for a number \<open>x\<close> and a positive int literal \<open>k\<close>: true division, a float.\<close>

fun py_truediv :: "json \<Rightarrow> int \<Rightarrow> exn + rat" where
  "py_truediv (JInt i) k = to_float (of_int i / of_int k)"
| "py_truediv (JFloat r) k = to_float (r / of_int k)"
| "py_truediv (JBool b) k = to_float ((if b then 1 else 0) / of_int k)"
| "py_truediv _ k = Inl TypeError"

text \<open>\<^verbatim>\<open>x >= k\<close> and \<^verbatim>\<open>x > k\<close> and \<^verbatim>\<open>x < k\<close> for an int literal \<open>k\<close>.\<close>

fun py_ge :: "json \<Rightarrow> int \<Rightarrow> exn + bool" where
  "py_ge (JInt i) k = Inr (k \<le> i)"
| "py_ge (JFloat r) k = Inr (of_int k \<le> r)"
| "py_ge (JBool b) k = Inr (k \<le> (if b then 1 else 0))"
| "py_ge _ k = Inl TypeError"

fun py_gt :: "json \<Rightarrow> int \<Rightarrow> exn + bool" where
  "py_gt (JInt i) k = Inr (k < i)"
| "py_gt (JFloat r) k = Inr (of_int k < r)"
| "py_gt (JBool b) k = Inr (k < (if b then 1 else 0))"
| "py_gt _ k = Inl TypeError"

fun py_lt :: "json \<Rightarrow> int \<Rightarrow> exn + bool" where
  "py_lt (JInt i) k = Inr (i < k)"
| "py_lt (JFloat r) k = Inr (r < of_int k)"
| "py_lt (JBool b) k = Inr ((if b then 1 else 0) < k)"
| "py_lt _ k = Inl TypeError"

section \<open>Numbers as text\<close>

definition digit :: "nat \<Rightarrow> char" where
  "digit d = ''0123456789'' ! d"

fun str_nat :: "nat \<Rightarrow> string" where
  "str_nat n = (if n < 10 then [digit n] else str_nat (n div 10) @ [digit (n mod 10)])"

declare str_nat.simps [simp del]

text \<open>\<^verbatim>\<open>str(i)\<close>, which is what \<^verbatim>\<open>f"{i}"\<close> writes for an int.\<close>

definition str_int :: "int \<Rightarrow> string" where
  "str_int i = (if i < 0 then ''-'' @ str_nat (nat (- i)) else str_nat (nat i))"

text \<open>
  \<^verbatim>\<open>f"{x:.1f}"\<close> for a float: the exact value of the double written with one digit
  after the point, correctly rounded, ties to even.
\<close>

definition fmt_1f :: "rat \<Rightarrow> string" where
  "fmt_1f r = (let a = nat \<bar>rhe (r * 10)\<bar>
               in (if r < 0 then ''-'' else []) @ str_nat (a div 10) @ ''.'' @ [digit (a mod 10)])"

section \<open>Formatter\<close>

text \<open>
  \<^verbatim>\<open>EVCCCollector.format_power\<close>. \<^verbatim>\<open>watts\<close> is whatever the caller read from the state;
  a falsy value (\<^verbatim>\<open>None\<close>, zero) counts as the int 0.
\<close>

definition format_power :: "json \<Rightarrow> string \<Rightarrow> exn + string" where
  "format_power watts unit =
     bnd (if truthy watts then py_abs watts else Inr (JInt 0)) (\<lambda>w.
       if unit = ''kW'' then
         bnd (py_truediv w 1000) (\<lambda>q. Inr (fmt_1f q @ '' kW''))
       else if unit = ''W'' then
         bnd (py_round w) (\<lambda>n. Inr (str_int n @ '' W''))
       else
         bnd (py_ge w 1000) (\<lambda>big.
           if big then bnd (py_truediv w 1000) (\<lambda>q. Inr (fmt_1f q @ '' kW''))
           else bnd (py_round w) (\<lambda>n. Inr (str_int n @ '' W''))))"

section \<open>Status of a loadpoint\<close>

text \<open>\<^verbatim>\<open>EVCCCollector.derive_status\<close>, with the five returns in the order of the source.\<close>

definition derive_status :: "dict \<Rightarrow> string" where
  "derive_status lp =
     (let connected = dict_get lp ''connected'' (JBool False);
          enabled = dict_get lp ''enabled'' (JBool False);
          charging = dict_get lp ''charging'' (JBool False);
          mode = dict_get lp ''mode'' (JStr '''')
      in if truthy charging then ''Charging''
         else if truthy connected \<and> truthy enabled \<and> \<not> truthy charging
                 \<and> (mode = JStr ''pv'' \<or> mode = JStr ''minpv'') then ''Waiting for solar''
         else if truthy connected \<and> truthy enabled \<and> \<not> truthy charging then ''Finished''
         else if truthy connected \<and> \<not> truthy enabled then ''Connected''
         else ''Disconnected'')"

text \<open>A flag of a loadpoint as the code reads it: a missing key counts as false.\<close>

definition flag :: "dict \<Rightarrow> string \<Rightarrow> bool" where
  "flag lp k = truthy (dict_get lp k (JBool False))"

definition solar_mode :: "dict \<Rightarrow> bool" where
  "solar_mode lp = (map_of lp ''mode'' = Some (JStr ''pv'') \<or> map_of lp ''mode'' = Some (JStr ''minpv''))"

section \<open>More Python operations\<close>

text \<open>\<^verbatim>\<open>x or y\<close>.\<close>

definition py_or :: "json \<Rightarrow> json \<Rightarrow> json" where
  "py_or x y = (if truthy x then x else y)"

text \<open>\<^verbatim>\<open>x.get(k, default)\<close> on any value: only a dictionary has \<^verbatim>\<open>get\<close>.\<close>

fun py_get :: "json \<Rightarrow> string \<Rightarrow> json \<Rightarrow> exn + json" where
  "py_get (JObj d) k dflt = Inr (dict_get d k dflt)"
| "py_get _ k dflt = Inl AttributeError"

text \<open>
  \<^verbatim>\<open>x * k\<close> for an int literal \<open>k\<close>: a product of numbers, a repetition of a string or
  of a list.
\<close>

fun py_mul :: "json \<Rightarrow> int \<Rightarrow> exn + json" where
  "py_mul (JInt i) k = Inr (JInt (i * k))"
| "py_mul (JBool b) k = Inr (JInt ((if b then 1 else 0) * k))"
| "py_mul (JFloat r) k = bnd (to_float (r * of_int k)) (\<lambda>q. Inr (JFloat q))"
| "py_mul (JStr s) k = Inr (JStr (concat (replicate (nat k) s)))"
| "py_mul (JArr xs) k = Inr (JArr (concat (replicate (nat k) xs)))"
| "py_mul _ k = Inl TypeError"

text \<open>
  \<^verbatim>\<open>a + b\<close> as \<^verbatim>\<open>sum\<close> uses it, with an int or a float on the left: int plus int is
  exact, an int next to a float is converted to a float first, a bool is an int, and
  anything else on the right raises.
\<close>

fun py_add :: "json \<Rightarrow> json \<Rightarrow> exn + json" where
  "py_add (JInt a) (JInt b) = Inr (JInt (a + b))"
| "py_add (JInt a) (JBool b) = Inr (JInt (a + (if b then 1 else 0)))"
| "py_add (JInt a) (JFloat b) =
     bnd (to_float (of_int a)) (\<lambda>fa. bnd (to_float (fa + b)) (\<lambda>q. Inr (JFloat q)))"
| "py_add (JFloat a) (JInt b) =
     bnd (to_float (of_int b)) (\<lambda>fb. bnd (to_float (a + fb)) (\<lambda>q. Inr (JFloat q)))"
| "py_add (JFloat a) (JBool b) =
     bnd (to_float (a + (if b then 1 else 0))) (\<lambda>q. Inr (JFloat q))"
| "py_add (JFloat a) (JFloat b) = bnd (to_float (a + b)) (\<lambda>q. Inr (JFloat q))"
| "py_add _ _ = Inl TypeError"

text \<open>
  \<^verbatim>\<open>sum(...)\<close> over a generator: the items are produced one at a time, each may raise,
  and each is added to the running total, which starts at the int 0, from left to
  right. (CPython from 3.12 on carries a correction term through a run of floats;
  the model adds the items one by one.)
\<close>

fun sum_from :: "json \<Rightarrow> (exn + json) list \<Rightarrow> exn + json" where
  "sum_from acc [] = Inr acc"
| "sum_from acc (x # xs) = bnd x (\<lambda>v. bnd (py_add acc v) (\<lambda>a. sum_from a xs))"

definition py_sum :: "(exn + json) list \<Rightarrow> exn + json" where
  "py_sum xs = sum_from (JInt 0) xs"

section \<open>Transformer\<close>

text \<open>
  The raw grid power of \<^verbatim>\<open>transform_energy\<close>: \<^verbatim>\<open>state["grid"]["power"]\<close> when
  \<^verbatim>\<open>state["grid"]\<close> is a dictionary, with \<^verbatim>\<open>state["gridPower"]\<close> and then 0 as defaults.
\<close>

definition grid_power_raw :: "dict \<Rightarrow> json" where
  "grid_power_raw state =
     (case dict_get state ''grid'' (JObj []) of
        JObj grid_obj \<Rightarrow>
          py_or (dict_get grid_obj ''power'' (dict_get state ''gridPower'' (JInt 0))) (JInt 0)
      | _ \<Rightarrow> py_or (dict_get state ''gridPower'' (JInt 0)) (JInt 0))"

text \<open>
  \<^verbatim>\<open>EVCCCollector.transform_energy\<close>; \<open>power_unit\<close> is \<^verbatim>\<open>self.power_unit\<close>. The entries of
  the returned dictionary are evaluated in the order of the source.
\<close>

definition transform_energy :: "string \<Rightarrow> dict \<Rightarrow> exn + json" where
  "transform_energy power_unit state =
     (let pv_power = py_or (dict_get state ''pvPower'' (JInt 0)) (JInt 0);
          grid_raw = grid_power_raw state;
          home_power = py_or (dict_get state ''homePower'' (JInt 0)) (JInt 0);
          green_share_raw = py_or (dict_get state ''greenShareHome'' (JInt 0)) (JInt 0)
      in bnd (format_power pv_power power_unit) (\<lambda>pv_formatted.
         bnd (py_abs grid_raw) (\<lambda>grid_abs.
         bnd (format_power grid_raw power_unit) (\<lambda>grid_formatted.
         bnd (py_gt grid_raw 0) (\<lambda>grid_import.
         bnd (format_power home_power power_unit) (\<lambda>home_formatted.
         bnd (py_mul green_share_raw 100) (\<lambda>green100.
         bnd (py_round green100) (\<lambda>green_share.
         Inr (JObj
           [(''pv_power'', pv_power),
            (''pv_power_formatted'', JStr pv_formatted),
            (''grid_power'', grid_abs),
            (''grid_power_formatted'', JStr grid_formatted),
            (''grid_import'', JBool grid_import),
            (''home_power'', home_power),
            (''home_power_formatted'', JStr home_formatted),
            (''green_share_home'', JInt green_share),
            (''tariff_grid'', dict_get_none state ''tariffGrid''),
            (''tariff_feedin'', dict_get_none state ''tariffFeedIn''),
            (''tariff_price_home'', dict_get_none state ''tariffPriceHome'')])))))))))"

text \<open>
  \<^verbatim>\<open>EVCCCollector.transform_battery\<close>. \<^verbatim>\<open>batteries\<close> is the list under "battery", or the
  empty list when that is missing or not a list. On the configured branch the list
  \<^verbatim>\<open>soc_values\<close> has as many items as \<^verbatim>\<open>batteries\<close>, so it is not empty and the mean is
  the quotient; the dictionaries were checked by the first sum, so building it
  cannot raise.
\<close>

definition batteries :: "dict \<Rightarrow> json list" where
  "batteries state = (case dict_get state ''battery'' (JArr []) of JArr bs \<Rightarrow> bs | _ \<Rightarrow> [])"

definition unit_value :: "string \<Rightarrow> json \<Rightarrow> exn + json" where
  "unit_value k b = bnd (py_get b k (JInt 0)) (\<lambda>v. Inr (py_or v (JInt 0)))"

definition transform_battery :: "string \<Rightarrow> dict \<Rightarrow> exn + json" where
  "transform_battery power_unit state =
     (let bs = batteries state;
          configured = (0 < length bs)
      in if \<not> configured then
           bnd (format_power (JInt 0) power_unit) (\<lambda>formatted.
           Inr (JObj
             [(''configured'', JBool False),
              (''soc'', JInt 0),
              (''power'', JInt 0),
              (''power_formatted'', JStr formatted),
              (''charging'', JBool False)]))
         else
           bnd (py_sum (map (unit_value ''power'') bs)) (\<lambda>total_power.
           bnd (py_sum (map (unit_value ''soc'') bs)) (\<lambda>soc_sum.
           bnd (py_truediv soc_sum (int (length bs))) (\<lambda>avg_soc.
           bnd (format_power total_power power_unit) (\<lambda>formatted.
           bnd (py_gt total_power 0) (\<lambda>charging.
           Inr (JObj
             [(''configured'', JBool True),
              (''soc'', JInt (rhe avg_soc)),
              (''power'', total_power),
              (''power_formatted'', JStr formatted),
              (''charging'', JBool charging)])))))))"

text \<open>
  \<^verbatim>\<open>EVCCCollector.transform_statistics\<close>: the body of the loop over the two periods,
  then the function.
\<close>

definition round_opt :: "json \<Rightarrow> nat \<Rightarrow> exn + json" where
  "round_opt x n = (if x \<noteq> JNull then py_round_nd x n else Inr JNull)"

definition round_int_opt :: "json \<Rightarrow> exn + json" where
  "round_int_opt x = (if x \<noteq> JNull then bnd (py_round x) (\<lambda>i. Inr (JInt i)) else Inr JNull)"

definition period_statistics :: "json \<Rightarrow> string \<Rightarrow> exn + json" where
  "period_statistics stats period =
     bnd (py_get stats period (JObj [])) (\<lambda>period_data.
     bnd (py_get period_data ''chargedKWh'' JNull) (\<lambda>charged.
     bnd (py_get period_data ''solarPercentage'' JNull) (\<lambda>solar.
     bnd (py_get period_data ''avgPrice'' JNull) (\<lambda>price.
     bnd (round_opt charged 1) (\<lambda>charged_kwh.
     bnd (round_int_opt solar) (\<lambda>solar_pct.
     bnd (round_opt price 2) (\<lambda>avg_price.
     Inr (JObj
       [(''charged_kwh'', charged_kwh),
        (''solar_pct'', solar_pct),
        (''avg_price'', avg_price)]))))))))"

definition transform_statistics :: "dict \<Rightarrow> exn + json" where
  "transform_statistics state =
     (let stats = dict_get state ''statistics'' (JObj [])
      in bnd (period_statistics stats ''30d'') (\<lambda>r30.
         bnd (period_statistics stats ''total'') (\<lambda>rtotal.
         Inr (JObj [(''30d'', r30), (''total'', rtotal)]))))"

text \<open>
  \<^verbatim>\<open>EVCCCollector.format_duration\<close>. \<^verbatim>\<open>int(seconds // k)\<close> is the floor of the quotient
  and \<^verbatim>\<open>seconds % k\<close> the remainder of that division, as Python computes them on ints
  and on floats below \<open>2^53\<close>.
\<close>

definition int_floordiv :: "json \<Rightarrow> int \<Rightarrow> int" where
  "int_floordiv x k = \<lfloor>num_val x / of_int k\<rfloor>"

fun py_mod :: "json \<Rightarrow> int \<Rightarrow> json" where
  "py_mod (JFloat r) k = JFloat (r - of_int k * of_int \<lfloor>r / of_int k\<rfloor>)"
| "py_mod x k = JInt (\<lfloor>num_val x\<rfloor> mod k)"

text \<open>\<^verbatim>\<open>f"{i:02d}"\<close>.\<close>

definition fmt_02d :: "int \<Rightarrow> string" where
  "fmt_02d i = (let s = str_int i in replicate (2 - length s) CHR ''0'' @ s)"

definition format_duration :: "json \<Rightarrow> exn + string" where
  "format_duration seconds =
     (if \<not> truthy seconds then Inr []
      else
        bnd (py_lt seconds 60) (\<lambda>lt60.
        if lt60 then Inr []
        else bnd (py_lt seconds 3600) (\<lambda>lt3600.
        if lt3600 then
          (let minutes = int_floordiv seconds 60 in Inr (str_int minutes @ ''m''))
        else bnd (py_lt seconds 86400) (\<lambda>lt86400.
        if lt86400 then
          (let hours = int_floordiv seconds 3600;
               minutes = int_floordiv (py_mod seconds 3600) 60
           in Inr (str_int hours @ '':'' @ fmt_02d minutes @ ''h''))
        else
          (let days = int_floordiv seconds 86400;
               hours = int_floordiv (py_mod seconds 86400) 3600
           in Inr (str_int days @ ''d '' @ str_int hours @ ''h''))))))"

text \<open>
  \<^verbatim>\<open>EVCCCollector.MODE_LABELS\<close> and \<^verbatim>\<open>MODE_LABELS.get(mode, mode)\<close>: a list or a dictionary
  cannot be a key and raises, any other value that is not in the table is returned.
\<close>

definition MODE_LABELS :: "(string \<times> string) list" where
  "MODE_LABELS = [(''off'', ''Off''), (''pv'', ''Solar''), (''minpv'', ''Min+Solar''), (''now'', ''Fast'')]"

fun mode_label :: "json \<Rightarrow> exn + json" where
  "mode_label (JStr s) = Inr (case map_of MODE_LABELS s of Some l \<Rightarrow> JStr l | None \<Rightarrow> JStr s)"
| "mode_label (JArr xs) = Inl TypeError"
| "mode_label (JObj d) = Inl TypeError"
| "mode_label mode = Inr mode"

text \<open>
  \<^verbatim>\<open>EVCCCollector.transform_loadpoint\<close> on a dictionary. The two roundings that the
  source does before it builds the result come first, then the entries in order.
\<close>

definition transform_loadpoint :: "string \<Rightarrow> dict \<Rightarrow> exn + json" where
  "transform_loadpoint power_unit lp =
     (let mode = dict_get lp ''mode'' (JStr ''off'');
          charge_power = py_or (dict_get lp ''chargePower'' (JInt 0)) (JInt 0);
          charged_energy = py_or (dict_get lp ''chargedEnergy'' (JInt 0)) (JInt 0)
      in bnd (let session_solar_pct = dict_get_none lp ''sessionSolarPercentage''
              in if session_solar_pct = JNull then Inr (JInt 0)
                 else bnd (py_round session_solar_pct) (\<lambda>i. Inr (JInt i))) (\<lambda>session_solar_pct.
         bnd (round_opt (dict_get_none lp ''sessionPrice'') 2) (\<lambda>session_price.
         bnd (mode_label mode) (\<lambda>label.
         bnd (format_power charge_power power_unit) (\<lambda>charge_power_formatted.
         bnd (py_truediv charged_energy 1000) (\<lambda>kwh.
         bnd (py_round_nd (JFloat kwh) 1) (\<lambda>charged_energy_kwh.
         bnd (format_duration (dict_get_none lp ''chargeDuration'')) (\<lambda>charge_duration.
         bnd (format_duration (dict_get_none lp ''chargeRemainingDuration'')) (\<lambda>charge_remaining.
         bnd (py_round (py_or (dict_get lp ''vehicleSoc'' (JInt 0)) (JInt 0))) (\<lambda>vehicle_soc.
         Inr (JObj
           [(''title'', dict_get lp ''title'' (JStr [])),
            (''mode'', mode),
            (''mode_label'', label),
            (''charging'', dict_get lp ''charging'' (JBool False)),
            (''connected'', dict_get lp ''connected'' (JBool False)),
            (''enabled'', dict_get lp ''enabled'' (JBool False)),
            (''status'', JStr (derive_status lp)),
            (''charge_power'', charge_power),
            (''charge_power_formatted'', JStr charge_power_formatted),
            (''charged_energy_kwh'', charged_energy_kwh),
            (''charge_duration_formatted'', JStr charge_duration),
            (''charge_remaining_formatted'', JStr charge_remaining),
            (''session_solar_pct'', session_solar_pct),
            (''session_price'', session_price),
            (''vehicle_title'',
               py_or (dict_get_none lp ''vehicleTitle'') (dict_get_none lp ''vehicleName'')),
            (''vehicle_soc'', JInt vehicle_soc),
            (''vehicle_range'', dict_get_none lp ''vehicleRange''),
            (''vehicle_connected'', dict_get lp ''connected'' (JBool False)),
            (''limit_soc'', dict_get_none lp ''effectiveLimitSoc''),
            (''plan_active'', dict_get lp ''planActive'' (JBool False)),
            (''plan_time'', dict_get_none lp ''planTime''),
            (''phases_active'', dict_get_none lp ''phasesActive'')])))))))))))"

section \<open>Collector\<close>

text \<open>
  The options of \<^verbatim>\<open>EVCCCollector.__init__\<close>. \<^verbatim>\<open>webhook\<close> is optional; \<^verbatim>\<open>timezone\<close> is the
  empty string when none is configured.
\<close>

record config =
  url :: string
  webhook :: "string option"
  timezone :: string
  max_loadpoints :: int
  power_unit :: string
  verbose :: bool
  dry_run :: bool

text \<open>
  What an HTTP exchange gives back: a status code and the body, decoded when it is
  JSON. \<^verbatim>\<open>raise_for_status\<close> raises on the codes 400 to 599.
\<close>

datatype response = Response nat "json option"

fun raise_for_status :: "response \<Rightarrow> exn + unit" where
  "raise_for_status (Response code body) =
     (if 400 \<le> code \<and> code < 600 then Inl HTTPError else Inr ())"

fun response_json :: "response \<Rightarrow> exn + json" where
  "response_json (Response code None) = Inl JSONDecodeError"
| "response_json (Response code (Some data)) = Inr data"

text \<open>
  \<^verbatim>\<open>EVCCCollector._api_request\<close>. Its argument is what \<^verbatim>\<open>requests.get\<close> does: it raises
  or it returns a response. The handlers of the source log and raise again.
\<close>

definition api_request :: "exn + response \<Rightarrow> exn + json" where
  "api_request got =
     bnd got (\<lambda>response.
     bnd (raise_for_status response) (\<lambda>_.
     bnd (response_json response) (\<lambda>data.
     py_get data ''result'' data)))"

text \<open>
  What the clock and the time-zone database give to one run of \<^verbatim>\<open>collect\<close>: the UTC
  time and the local time as the source formats them, and for the configured zone
  either its abbreviation or the exception of \<^verbatim>\<open>ZoneInfo\<close>.
\<close>

record clock =
  utc_iso :: string
  local_time :: string
  zone :: "exn + string"

text \<open>\<^verbatim>\<open>EVCCCollector._get_timezone_abbrev\<close>; its handler catches every exception.\<close>

definition get_timezone_abbrev :: "config \<Rightarrow> clock \<Rightarrow> string" where
  "get_timezone_abbrev cfg clk =
     (if timezone cfg = [] then ''UTC''
      else case zone clk of
             Inr abbrev \<Rightarrow> (if abbrev \<noteq> [] then abbrev else timezone cfg)
           | Inl e \<Rightarrow> (if timezone cfg \<noteq> [] then timezone cfg else ''UTC''))"

text \<open>
  \<^verbatim>\<open>xs[:m]\<close>: the first \<open>m\<close> elements, and for a negative \<open>m\<close> all but the last \<open>-m\<close>.
\<close>

definition py_slice_to :: "'a list \<Rightarrow> int \<Rightarrow> 'a list" where
  "py_slice_to xs m = (if 0 \<le> m then take (nat m) xs else take (nat (int (length xs) + m)) xs)"

text \<open>
  \<^verbatim>\<open>loadpoints[:m]\<close> and \<^verbatim>\<open>len(loadpoints)\<close> on any value: a list and a string can be
  sliced and have a length (the items of a string are its characters), every other
  value raises (a dictionary with \<^verbatim>\<open>TypeError\<close> or \<^verbatim>\<open>KeyError\<close>, by the version of
  Python).
\<close>

fun py_slice :: "json \<Rightarrow> int \<Rightarrow> exn + json list" where
  "py_slice (JArr xs) m = Inr (py_slice_to xs m)"
| "py_slice (JStr s) m = Inr (map (\<lambda>c. JStr [c]) (py_slice_to s m))"
| "py_slice _ m = Inl TypeError"

fun py_len :: "json \<Rightarrow> exn + int" where
  "py_len (JArr xs) = Inr (int (length xs))"
| "py_len (JStr s) = Inr (int (length s))"
| "py_len (JObj d) = Inr (int (length d))"
| "py_len _ = Inl TypeError"

text \<open>A list comprehension whose body may raise.\<close>

fun map_exn :: "('a \<Rightarrow> exn + 'b) \<Rightarrow> 'a list \<Rightarrow> exn + 'b list" where
  "map_exn f [] = Inr []"
| "map_exn f (x # xs) = bnd (f x) (\<lambda>y. bnd (map_exn f xs) (\<lambda>ys. Inr (y # ys)))"

text \<open>\<^verbatim>\<open>transform_loadpoint\<close> on any value: only a dictionary has \<^verbatim>\<open>get\<close>.\<close>

fun transform_loadpoint_item :: "string \<Rightarrow> json \<Rightarrow> exn + json" where
  "transform_loadpoint_item unit (JObj lp) = transform_loadpoint unit lp"
| "transform_loadpoint_item unit _ = Inl AttributeError"

text \<open>
  \<^verbatim>\<open>EVCCCollector.collect\<close>. The state is what \<^verbatim>\<open>_api_request\<close> returned; the first
  \<^verbatim>\<open>state.get\<close> raises unless it is a dictionary.
\<close>

definition collect :: "config \<Rightarrow> exn + response \<Rightarrow> clock \<Rightarrow> exn + json" where
  "collect cfg got clk =
     bnd (api_request got) (\<lambda>state.
     bnd (if timezone cfg \<noteq> [] then bnd (zone clk) (\<lambda>_. Inr (local_time clk))
          else Inr (local_time clk)) (\<lambda>local_formatted.
     let tz_abbrev = get_timezone_abbrev cfg clk in
     case state of
       JObj st \<Rightarrow>
         (let loadpoints = dict_get st ''loadpoints'' (JArr [])
          in bnd (transform_energy (power_unit cfg) st) (\<lambda>energy.
             bnd (transform_battery (power_unit cfg) st) (\<lambda>battery.
             bnd (py_slice loadpoints (max_loadpoints cfg)) (\<lambda>sliced.
             bnd (map_exn (transform_loadpoint_item (power_unit cfg)) sliced) (\<lambda>summaries.
             bnd (py_len loadpoints) (\<lambda>loadpoint_count.
             bnd (transform_statistics st) (\<lambda>statistics.
             Inr (JObj
               [(''merge_variables'', JObj
                  [(''site_title'', dict_get st ''siteTitle'' (JStr ''EVCC'')),
                   (''last_updated'', JStr (utc_iso clk)),
                   (''last_updated_local'', JStr local_formatted),
                   (''timezone'', JStr tz_abbrev),
                   (''currency'', dict_get st ''currency'' (JStr ''EUR'')),
                   (''energy'', energy),
                   (''battery'', battery),
                   (''loadpoints'', JArr summaries),
                   (''loadpoint_count'', JInt loadpoint_count),
                   (''statistics'', statistics)])]))))))))
     | _ \<Rightarrow> Inl AttributeError))"

section \<open>Cache, dispatcher and HTTP handler\<close>

text \<open>
  The state outside the collector: the module-level dictionary \<^verbatim>\<open>_serve_data\<close>, and
  the effects of a run in the order in which they happen: a store into the cache, a
  document printed on standard output, a POST of a document to a URL.
\<close>

datatype event = Stored json | Printed json | Posted string json

record world =
  serve_data :: "string \<rightharpoonup> json"
  trace :: "event list"

definition initial_world :: world where
  "initial_world = \<lparr>serve_data = Map.empty, trace = []\<rparr>"

text \<open>\<^verbatim>\<open>store_payload\<close>.\<close>

definition store_payload :: "json \<Rightarrow> world \<Rightarrow> exn + world" where
  "store_payload payload w =
     bnd (py_get payload ''merge_variables'' payload) (\<lambda>data.
     Inr (w\<lparr>serve_data := (serve_data w)(''evcc'' \<mapsto> data), trace := trace w @ [Stored data]\<rparr>))"

text \<open>The exceptions that \<^verbatim>\<open>except requests.exceptions.RequestException\<close> catches.\<close>

fun is_request_exception :: "exn \<Rightarrow> bool" where
  "is_request_exception ConnectionError = True"
| "is_request_exception Timeout = True"
| "is_request_exception HTTPError = True"
| "is_request_exception JSONDecodeError = True"
| "is_request_exception RequestException = True"
| "is_request_exception _ = False"

text \<open>
  \<^verbatim>\<open>EVCCCollector.send\<close>. \<open>posted\<close> is what \<^verbatim>\<open>requests.post\<close> does when it is called: it
  raises or it returns a response. \<^verbatim>\<open>not self.webhook\<close> holds for \<^verbatim>\<open>None\<close> and for the
  empty string. Logging is left out.
\<close>

definition webhook_url :: "config \<Rightarrow> string" where
  "webhook_url cfg = (case webhook cfg of None \<Rightarrow> [] | Some hook \<Rightarrow> hook)"

definition send :: "config \<Rightarrow> json \<Rightarrow> exn + response \<Rightarrow> world \<Rightarrow> world \<times> (exn + bool)" where
  "send cfg payload posted w =
     (if dry_run cfg \<or> webhook_url cfg = [] then
        (w\<lparr>trace := trace w @ [Printed payload]\<rparr>, Inr True)
      else
        (let w' = w\<lparr>trace := trace w @ [Posted (webhook_url cfg) payload]\<rparr>
         in case bnd posted raise_for_status of
              Inr _ \<Rightarrow> (w', Inr True)
            | Inl e \<Rightarrow> if is_request_exception e then (w', Inr False) else (w', Inl e)))"

text \<open>
  \<^verbatim>\<open>DataHandler.do_GET\<close>: the status and the JSON body of the answer, if it has one.
  The dictionary \<^verbatim>\<open>endpoints\<close> that the source builds for the root path is not used
  in its answer.
\<close>

definition rstrip_slash :: "string \<Rightarrow> string" where
  "rstrip_slash s = rev (dropWhile (\<lambda>c. c = CHR ''/'') (rev s))"

definition do_GET :: "world \<Rightarrow> string \<Rightarrow> nat \<times> json option" where
  "do_GET w request_path =
     (let path = rstrip_slash request_path
      in if path = [] \<or> path = ''/'' then
           (200, Some (JObj [(''endpoints'', JObj [(''evcc'', JStr ''/data/evcc'')])]))
         else if path = ''/data/evcc'' then
           (let data = (case serve_data w ''evcc'' of None \<Rightarrow> JNull | Some d \<Rightarrow> d)
            in if data = JNull then (404, Some (JObj [(''error'', JStr ''No data collected yet'')]))
               else (200, Some data))
         else (404, None))"

text \<open>\<^verbatim>\<open>run_collection\<close>; its handler catches every exception.\<close>

definition run_collection ::
  "config \<Rightarrow> exn + response \<Rightarrow> clock \<Rightarrow> exn + response \<Rightarrow> world \<Rightarrow> world \<times> bool" where
  "run_collection cfg got clk posted w =
     (case collect cfg got clk of
        Inl e \<Rightarrow> (w, False)
      | Inr payload \<Rightarrow>
          (case store_payload payload w of
             Inl e \<Rightarrow> (w, False)
           | Inr w1 \<Rightarrow>
               (case send cfg payload posted w1 of
                  (w2, Inl e) \<Rightarrow> (w2, False)
                | (w2, Inr success) \<Rightarrow> (w2, success))))"

section \<open>Notions used to state the properties\<close>

text \<open>
  Rounding half away from zero, in the words of the specification of
  \<^verbatim>\<open>FormatPower\<close>; the code does not use it.
\<close>

definition round_half_away :: "rat \<Rightarrow> int" where
  "round_half_away x = (if 0 \<le> x then \<lfloor>x + 1 / 2\<rfloor> else \<lceil>x - 1 / 2\<rceil>)"

text \<open>A number whose magnitude is far inside the range of the doubles.\<close>

definition in_range :: "json \<Rightarrow> bool" where
  "in_range x = (is_number x \<and> \<bar>num_val x\<bar> < pow2 1000)"

text \<open>A field of the state read as \<^verbatim>\<open>state.get(k, 0) or 0\<close>.\<close>

definition field_or_zero :: "dict \<Rightarrow> string \<Rightarrow> json" where
  "field_or_zero d k = py_or (dict_get d k (JInt 0)) (JInt 0)"

text \<open>
  The source field of a statistic, \<^verbatim>\<open>state["statistics"][period][key]\<close>, with \<^verbatim>\<open>None\<close>
  when it is missing at any level, and the field of the result it goes to.
\<close>

definition stat_source :: "dict \<Rightarrow> string \<Rightarrow> string \<Rightarrow> json" where
  "stat_source state period key =
     (case dict_get state ''statistics'' (JObj []) of
        JObj stats \<Rightarrow>
          (case dict_get stats period (JObj []) of
             JObj period_data \<Rightarrow> dict_get period_data key JNull
           | _ \<Rightarrow> JNull)
      | _ \<Rightarrow> JNull)"

definition stat_field :: "json \<Rightarrow> string \<Rightarrow> string \<Rightarrow> json option" where
  "stat_field out period key =
     (case out of
        JObj d \<Rightarrow> (case map_of d period of Some (JObj pd) \<Rightarrow> map_of pd key | _ \<Rightarrow> None)
      | _ \<Rightarrow> None)"

text \<open>A value that is \<^verbatim>\<open>None\<close> or a number in range.\<close>

definition stat_ok :: "json \<Rightarrow> bool" where
  "stat_ok v = (v = JNull \<or> in_range v)"

text \<open>
  The statistics of a state are well formed when "statistics" is missing or a
  dictionary, each period in it is missing or a dictionary, and each of the three
  source fields is missing, \<^verbatim>\<open>None\<close> or a number in range.
\<close>

definition period_ok :: "dict \<Rightarrow> string \<Rightarrow> bool" where
  "period_ok stats period =
     (case dict_get stats period (JObj []) of
        JObj pd \<Rightarrow> stat_ok (dict_get pd ''chargedKWh'' JNull)
                 \<and> stat_ok (dict_get pd ''solarPercentage'' JNull)
                 \<and> stat_ok (dict_get pd ''avgPrice'' JNull)
      | _ \<Rightarrow> False)"

definition statistics_ok :: "dict \<Rightarrow> bool" where
  "statistics_ok state =
     (case dict_get state ''statistics'' (JObj []) of
        JObj stats \<Rightarrow> period_ok stats ''30d'' \<and> period_ok stats ''total''
      | _ \<Rightarrow> False)"

text \<open>
  A field of the snapshot inside the payload that \<^const>\<open>collect\<close> returned, and a field
  of one loadpoint summary.
\<close>

definition snapshot_field :: "exn + json \<Rightarrow> string \<Rightarrow> json option" where
  "snapshot_field r k =
     (case r of
        Inr (JObj d) \<Rightarrow>
          (case map_of d ''merge_variables'' of Some (JObj mv) \<Rightarrow> map_of mv k | _ \<Rightarrow> None)
      | _ \<Rightarrow> None)"

definition loadpoint_field :: "json \<Rightarrow> string \<Rightarrow> json option" where
  "loadpoint_field x k = (case x of JObj d \<Rightarrow> map_of d k | _ \<Rightarrow> None)"

text \<open>The number of loadpoint summaries in what \<^const>\<open>collect\<close> returned.\<close>

definition summaries_returned :: "exn + json \<Rightarrow> int option" where
  "summaries_returned r =
     (case snapshot_field r ''loadpoints'' of Some (JArr outs) \<Rightarrow> Some (int (length outs)) | _ \<Rightarrow> None)"

section \<open>Properties of the status classification\<close>

text \<open>
  C1. \<^const>\<open>derive_status\<close> is a total classification into the five status strings,
  decided in priority order: a charging loadpoint is "Charging" whatever the other
  fields are; otherwise a connected and enabled one is "Waiting for solar" in mode
  "pv" or "minpv" and "Finished" in every other mode; otherwise a connected one (so
  not enabled) is "Connected"; everything else is "Disconnected".
\<close>

theorem derive_status_classification:
  "derive_status lp \<in> {''Charging'', ''Waiting for solar'', ''Finished'', ''Connected'', ''Disconnected''}
   \<and> (flag lp ''charging'' \<longrightarrow> derive_status lp = ''Charging'')
   \<and> (\<not> flag lp ''charging'' \<and> flag lp ''connected'' \<and> flag lp ''enabled'' \<and> solar_mode lp
        \<longrightarrow> derive_status lp = ''Waiting for solar'')
   \<and> (\<not> flag lp ''charging'' \<and> flag lp ''connected'' \<and> flag lp ''enabled'' \<and> \<not> solar_mode lp
        \<longrightarrow> derive_status lp = ''Finished'')
   \<and> (\<not> flag lp ''charging'' \<and> flag lp ''connected'' \<and> \<not> flag lp ''enabled''
        \<longrightarrow> derive_status lp = ''Connected'')
   \<and> (\<not> flag lp ''charging'' \<and> \<not> flag lp ''connected''
        \<longrightarrow> derive_status lp = ''Disconnected'')"
  by (auto simp: derive_status_def flag_def solar_mode_def dict_get_def Let_def
           split: option.splits)

theorem derive_status_classification_witness:
  "derive_status [(''charging'', JBool True), (''connected'', JBool False)] = ''Charging''
   \<and> derive_status [(''mode'', JStr ''pv''), (''charging'', JBool False),
                     (''connected'', JBool True), (''enabled'', JBool True)] = ''Waiting for solar''
   \<and> derive_status [(''connected'', JBool True), (''enabled'', JBool True),
                     (''charging'', JBool False), (''mode'', JStr ''now'')] = ''Finished''
   \<and> derive_status [(''connected'', JBool True), (''enabled'', JBool False)] = ''Connected''
   \<and> derive_status [] = ''Disconnected''"
  using derive_status_classification [of "[(''charging'', JBool True), (''connected'', JBool False)]"]
        derive_status_classification [of "[(''mode'', JStr ''pv''), (''charging'', JBool False),
                     (''connected'', JBool True), (''enabled'', JBool True)]"]
        derive_status_classification [of "[(''connected'', JBool True), (''enabled'', JBool True),
                     (''charging'', JBool False), (''mode'', JStr ''now'')]"]
        derive_status_classification [of "[(''connected'', JBool True), (''enabled'', JBool False)]"]
        derive_status_classification [of "[]"]
  by (simp add: flag_def solar_mode_def dict_get_def)

section \<open>Facts about rounding\<close>

lemma rhe_error: "\<bar>of_int (rhe x) - x\<bar> \<le> 1 / 2"
proof -
  have lo: "of_int \<lfloor>x\<rfloor> \<le> x" and hi: "x < of_int \<lfloor>x\<rfloor> + 1"
    by linarith+
  show ?thesis
    using lo hi unfolding rhe_def Let_def by (simp add: abs_le_iff)
qed

lemma rhe_nonneg: "0 \<le> x \<Longrightarrow> 0 \<le> rhe x"
  unfolding rhe_def Let_def by (auto) 

lemma rhe_of_int: "rhe (of_int i) = i"
  unfolding rhe_def Let_def by simp

lemma rhe_tie_even: "x - of_int \<lfloor>x\<rfloor> = 1 / 2 \<Longrightarrow> even (rhe x)"
  unfolding rhe_def Let_def by auto

lemma bitlen_bounds: "0 < n \<Longrightarrow> 2 ^ (bitlen n - 1) \<le> n \<and> n < 2 ^ bitlen n"
proof (induction n rule: bitlen.induct)
  case (1 n)
  show ?case
  proof (cases "n div 2 = 0")
    case True
    with "1.prems" have "n = 1" by presburger
    then show ?thesis by (simp add: bitlen.simps)
  next
    case False
    then have pos: "0 < n div 2" by simp
    from "1.IH" [OF _ pos] "1.prems"
    have ih: "2 ^ (bitlen (n div 2) - 1) \<le> n div 2" "n div 2 < 2 ^ bitlen (n div 2)" by auto
    have b: "bitlen n = Suc (bitlen (n div 2))" using "1.prems" by (subst bitlen.simps) simp
    have bpos: "0 < bitlen (n div 2)" using pos by (subst bitlen.simps) simp
    then obtain k where k: "bitlen (n div 2) = Suc k" by (cases "bitlen (n div 2)") auto
    show ?thesis using ih b k by auto
  qed
qed


lemma pow2_pos: "0 < pow2 q"
  by (simp add: pow2_def)

lemma pow2_fast_eq: "pow2_fast n = 2 ^ n"
proof (induction n rule: less_induct)
  case (less n)
  show ?case
  proof (cases "n = 0")
    case True
    then show ?thesis by (simp add: pow2_fast.simps)
  next
    case False
    then have "n div 2 < n" by simp
    from less [OF this] have ih: "pow2_fast (n div 2) = 2 ^ (n div 2)" .
    have sqp: "sq (2 ^ (n div 2)) = 2 ^ (2 * (n div 2))"
      by (simp only: sq_def mult_2 power_add)
    show ?thesis
    proof (cases "even n")
      case True
      then have n: "2 * (n div 2) = n" by simp
      have "pow2_fast n = sq (pow2_fast (n div 2))"
        by (subst pow2_fast.simps) (simp only: False True if_False if_True)
      then show ?thesis by (simp only: ih sqp n)
    next
      case odd: False
      then have n: "Suc (2 * (n div 2)) = n" by simp
      have "pow2_fast n = 2 * sq (pow2_fast (n div 2))"
        by (subst pow2_fast.simps) (simp only: False odd if_False)
      then have "pow2_fast n = 2 ^ Suc (2 * (n div 2))" by (simp only: ih sqp power_Suc)
      then show ?thesis by (simp only: n)
    qed
  qed
qed


lemma pow2_code [code]:
  "pow2 q = (if 0 \<le> q then pow2_fast (nat q) else 1 / pow2_fast (nat (- q)))"
  by (simp add: pow2_def pow2_fast_eq)

lemma pow2_powi: "pow2 k = 2 powi k"
proof (cases "0 \<le> k")
  case True
  then show ?thesis by (simp add: pow2_def power_int_def)
next
  case False
  then show ?thesis
    by (simp add: pow2_def power_int_def power_one_over inverse_eq_divide)
qed

lemma pow2_mono: "p \<le> q \<Longrightarrow> pow2 p \<le> pow2 q"
  unfolding pow2_powi by (rule power_int_increasing) simp_all

lemma pow2_ilog2_le: "0 < a \<Longrightarrow> pow2 (ilog2 a) \<le> a"
proof (cases "1 \<le> a")
  case True
  then have fpos: "0 < nat \<lfloor>a\<rfloor>" by simp
  from bitlen_bounds [OF fpos] have "2 ^ (bitlen (nat \<lfloor>a\<rfloor>) - 1) \<le> nat \<lfloor>a\<rfloor>" by simp
  then have "(2::rat) ^ (bitlen (nat \<lfloor>a\<rfloor>) - 1) \<le> of_nat (nat \<lfloor>a\<rfloor>)"
    by (metis of_nat_le_iff of_nat_numeral of_nat_power)
  also have "\<dots> = of_int \<lfloor>a\<rfloor>" using True by simp
  also have "\<dots> \<le> a" by simp
  finally have le: "(2::rat) ^ (bitlen (nat \<lfloor>a\<rfloor>) - 1) \<le> a" .
  have bpos: "0 < bitlen (nat \<lfloor>a\<rfloor>)" using fpos by (subst bitlen.simps) simp
  then have "ilog2 a = int (bitlen (nat \<lfloor>a\<rfloor>) - 1)" using True by (simp add: ilog2_def)
  then show ?thesis using le by (simp add: pow2_def)
next
  case False
  assume pos: "0 < a"
  from False pos have inv: "1 < 1 / a" by simp
  define m where "m = nat (\<lceil>1 / a\<rceil> - 1)"
  have c2: "2 \<le> \<lceil>1 / a\<rceil>" using inv by linarith
  then have mpos: "0 < m" by (simp add: m_def)
  from bitlen_bounds [OF mpos] have "m < 2 ^ bitlen m" by simp
  then have "m + 1 \<le> 2 ^ bitlen m" by simp
  then have "(of_nat (m + 1) :: rat) \<le> of_nat (2 ^ bitlen m)" by (simp only: of_nat_le_iff)
  then have "(of_nat (m + 1) :: rat) \<le> 2 ^ bitlen m" by simp
  moreover have "of_nat (m + 1) = (of_int \<lceil>1 / a\<rceil> :: rat)"
  proof -
    have gen: "2 \<le> c \<Longrightarrow> int (nat (c - 1) + 1) = c" for c :: int by simp
    have "int (m + 1) = \<lceil>1 / a\<rceil>" unfolding m_def by (rule gen [OF c2])
    then have "(of_int (int (m + 1)) :: rat) = of_int \<lceil>1 / a\<rceil>" by (simp only:)
    then show ?thesis by (simp only: of_int_of_nat_eq)
  qed
  moreover have "1 / a \<le> of_int \<lceil>1 / a\<rceil>" by simp
  ultimately have "1 / a \<le> 2 ^ bitlen m" by linarith
  then have "1 / 2 ^ bitlen m \<le> a" using pos
    by (simp add: field_simps)
  moreover have "ilog2 a = - int (bitlen m)" using False by (simp add: ilog2_def m_def)
  moreover have "0 < bitlen m" using mpos by (subst bitlen.simps) simp
  ultimately show ?thesis by (simp add: pow2_def)
qed


lemma fl64_in_range:
  assumes "\<bar>x\<bar> < pow2 1023"
  shows "\<exists>r. fl64 x = Some r"
proof (cases "x = 0")
  case True
  then show ?thesis by (simp add: fl64_def)
next
  case False
  define a where "a = \<bar>x\<bar>"
  define q where "q = max (ilog2 a - 52) (- 1074)"
  have apos: "0 < a" using False by (simp add: a_def)
  have "pow2 (ilog2 a) < pow2 1023"
    using pow2_ilog2_le [OF apos] assms by (simp add: a_def)
  then have "ilog2 a < 1023"
    using pow2_mono [of 1023 "ilog2 a"] by (cases "ilog2 a < 1023") auto
  then have "q \<le> 1023" by (simp add: q_def)
  then have pq: "pow2 q \<le> pow2 1023" by (rule pow2_mono)
  have qpos: "0 < pow2 q" by (rule pow2_pos)
  have "of_int (rhe (a / pow2 q)) \<le> a / pow2 q + 1 / 2"
    using rhe_error [of "a / pow2 q"] by linarith
  then have "of_int (rhe (a / pow2 q)) * pow2 q \<le> (a / pow2 q + 1 / 2) * pow2 q"
    using qpos by (simp only: mult_le_cancel_right_pos)
  also have "\<dots> = a + pow2 q / 2" using qpos by (simp add: field_simps)
  also have "\<dots> < pow2 1023 + pow2 1023" using pq assms by (simp add: a_def)
  also have "\<dots> = pow2 1024" by (simp add: pow2_def)
  finally have "\<not> pow2 1024 \<le> of_int (rhe (a / pow2 q)) * pow2 q" by simp
  then show ?thesis using False by (simp add: fl64_def Let_def a_def q_def)
qed




section \<open>Properties of the formatter\<close>

lemma format_power_neg: "is_number x \<Longrightarrow> format_power (py_neg x) u = format_power x u"
  by (cases x) (simp_all add: format_power_def)

lemma format_power_zero:
  "u \<noteq> ''kW'' \<Longrightarrow> \<not> truthy x \<Longrightarrow> format_power x u = Inr ''0 W''"
  by (simp add: format_power_def bnd_def str_int_def str_nat.simps digit_def)

lemma nat_rhe_split:
  "0 \<le> q \<Longrightarrow> fmt_1f q = str_nat (nat (rhe (q * 10)) div 10) @ ''.'' @ [digit (nat (rhe (q * 10)) mod 10)]"
  using rhe_nonneg [of "q * 10"] by (simp add: fmt_1f_def Let_def)

lemma fl64_nonneg: "0 \<le> x \<Longrightarrow> fl64 x = Some q \<Longrightarrow> 0 \<le> q"
  using rhe_nonneg [of "\<bar>x\<bar> / pow2 (max (ilog2 \<bar>x\<bar> - 52) (- 1074))"] pow2_pos [of "max (ilog2 \<bar>x\<bar> - 52) (- 1074)"]
  by (auto simp: fl64_def Let_def split: if_splits)

lemma rhe_zero: "rhe 0 = 0"
  using rhe_of_int [of 0] by simp

lemma format_power_W:
  "is_number x \<Longrightarrow> format_power x ''W'' = Inr (str_int (rhe \<bar>num_val x\<bar>) @ '' W'')"
  by (cases x) (auto simp: format_power_def bnd_def rhe_of_int rhe_zero simp flip: of_int_abs)

lemma format_power_kW:
  assumes "is_number x" "fl64 (\<bar>num_val x\<bar> / 1000) = Some q"
  shows "format_power x ''kW'' = Inr (fmt_1f q @ '' kW'')"
  using assms by (cases x) (auto simp: format_power_def bnd_def to_float_def fl64_def)

lemma format_power_auto:
  assumes "is_number x" "u \<noteq> ''kW''" "u \<noteq> ''W''"
  shows "format_power x u = (if 1000 \<le> \<bar>num_val x\<bar> then format_power x ''kW'' else format_power x ''W'')"
  using assms by (cases x) (auto simp: format_power_def bnd_def)

lemma cex: "format_power (JFloat (5 / 2)) ''W'' = Inr ''2 W''"
  by code_simp

lemma cex2: "str_int (round_half_away \<bar>5 / 2\<bar>) @ '' W'' = ''3 W''"
  by code_simp


lemma fl64_thousandth:
  assumes "\<bar>v\<bar> < pow2 1024"
  shows "\<exists>q. fl64 (\<bar>v\<bar> / 1000) = Some q \<and> 0 \<le> q"
proof -
  have "pow2 1024 = 2 * pow2 1023" by (simp add: pow2_def)
  then have "\<bar>\<bar>v\<bar> / 1000\<bar> < pow2 1023" using assms by simp
  from fl64_in_range [OF this] obtain q where q: "fl64 (\<bar>v\<bar> / 1000) = Some q" by blast
  moreover have "0 \<le> q" using fl64_nonneg [OF _ q] by simp
  ultimately show ?thesis by blast
qed

text \<open>
  C5 (as amended). For every number \<open>x\<close> in the range of the doubles and every unit
  preference \<open>u\<close>: \<^const>\<open>format_power\<close> gives the same text for \<open>x\<close> and \<open>-x\<close>; a missing or
  zero value gives "0 W" unless the unit is "kW"; under "kW" the text is the double
  \<open>|x| / 1000\<close> written with one digit after the point, followed by " kW"; under "W" it
  is the integer nearest to \<open>|x|\<close>, a tie going to the even integer, followed by " W";
  under any other unit ("auto") it is the "kW" text when \<open>|x| \<ge> 1000\<close> and the "W" text
  otherwise.
\<close>

theorem format_power_policy:
  assumes num: "is_number x" and fin: "\<bar>num_val x\<bar> < pow2 1024"
  shows "format_power (py_neg x) u = format_power x u
    \<and> (u \<noteq> ''kW'' \<longrightarrow> format_power JNull u = Inr ''0 W'' \<and> format_power (JInt 0) u = Inr ''0 W''
          \<and> format_power (JFloat 0) u = Inr ''0 W'')
    \<and> (\<exists>q. fl64 (\<bar>num_val x\<bar> / 1000) = Some q
          \<and> format_power x ''kW''
              = Inr (str_nat (nat (rhe (q * 10)) div 10) @ ''.'' @ [digit (nat (rhe (q * 10)) mod 10)] @ '' kW'')
          \<and> \<bar>of_int (rhe (q * 10)) / 10 - q\<bar> \<le> 1 / 20)
    \<and> format_power x ''W'' = Inr (str_int (rhe \<bar>num_val x\<bar>) @ '' W'')
    \<and> \<bar>of_int (rhe \<bar>num_val x\<bar>) - \<bar>num_val x\<bar>\<bar> \<le> 1 / 2
    \<and> (\<bar>num_val x\<bar> - of_int \<lfloor>\<bar>num_val x\<bar>\<rfloor> = 1 / 2 \<longrightarrow> even (rhe \<bar>num_val x\<bar>))
    \<and> (u \<noteq> ''kW'' \<and> u \<noteq> ''W'' \<longrightarrow>
          format_power x u = (if 1000 \<le> \<bar>num_val x\<bar> then format_power x ''kW'' else format_power x ''W''))"
proof -
  have sym: "format_power (py_neg x) u = format_power x u"
    by (rule format_power_neg [OF num])
  have zero: "u \<noteq> ''kW'' \<longrightarrow> format_power JNull u = Inr ''0 W'' \<and> format_power (JInt 0) u = Inr ''0 W''
          \<and> format_power (JFloat 0) u = Inr ''0 W''"
    by (simp add: format_power_zero)
  from fl64_thousandth [OF fin] obtain q
    where q: "fl64 (\<bar>num_val x\<bar> / 1000) = Some q" and qpos: "0 \<le> q" by blast
  have kw: "format_power x ''kW''
      = Inr (str_nat (nat (rhe (q * 10)) div 10) @ ''.'' @ [digit (nat (rhe (q * 10)) mod 10)] @ '' kW'')"
    using format_power_kW [OF num q] nat_rhe_split [OF qpos] by simp
  have "\<bar>of_int (rhe (q * 10)) - q * 10\<bar> \<le> 1 / 2" by (rule rhe_error)
  then have near: "\<bar>of_int (rhe (q * 10)) / 10 - q\<bar> \<le> 1 / 20" by linarith
  have w: "format_power x ''W'' = Inr (str_int (rhe \<bar>num_val x\<bar>) @ '' W'')"
    by (rule format_power_W [OF num])
  have auto_unit: "u \<noteq> ''kW'' \<and> u \<noteq> ''W'' \<longrightarrow>
          format_power x u = (if 1000 \<le> \<bar>num_val x\<bar> then format_power x ''kW'' else format_power x ''W'')"
    using format_power_auto [OF num] by blast
  show ?thesis
    using sym zero q kw near w rhe_error [of "\<bar>num_val x\<bar>"] rhe_tie_even [of "\<bar>num_val x\<bar>"] auto_unit
    by blast
qed

theorem format_power_policy_witness:
  "is_number (JFloat (5 / 2)) \<and> \<bar>num_val (JFloat (5 / 2))\<bar> < pow2 1024
   \<and> format_power (JFloat (- (5 / 2))) ''auto'' = format_power (JFloat (5 / 2)) ''auto''
   \<and> format_power JNull ''auto'' = Inr ''0 W''
   \<and> format_power (JFloat (5 / 2)) ''W'' = Inr ''2 W''
   \<and> format_power (JFloat (5 / 2)) ''auto'' = format_power (JFloat (5 / 2)) ''W''"
proof -
  have h1: "is_number (JFloat (5 / 2))" by simp
  have h2: "\<bar>num_val (JFloat (5 / 2))\<bar> < pow2 1024" by (simp add: pow2_def)
  have r: "rhe (5 / 2) = 2" by code_simp
  have s: "str_int 2 = ''2''" by code_simp
  show ?thesis
    using format_power_policy [OF h1 h2, of "''auto''"] h1 h2 by (simp add: r s)
qed

text \<open>
  An example of the "kW" text: 1150 W is the double nearest to 1.15, which lies below
  1.15, so one digit after the point gives 1.1.
\<close>

lemma format_power_example_kW: "format_power (JInt (- 1150)) ''auto'' = Inr ''1.1 kW''"
  by code_simp

text \<open>
  C5 as the specification words it asks for rounding half away from zero under "W".
  At 2.5 W the code writes "2 W", half away from zero would be "3 W".
\<close>

theorem format_power_half_away_counterexample:
  "format_power (JFloat (5 / 2)) ''W'' = Inr ''2 W''
   \<and> format_power (JFloat (5 / 2)) ''W'' \<noteq> Inr (str_int (round_half_away \<bar>5 / 2\<bar>) @ '' W'')"
  by code_simp

section \<open>Properties of the energy summary\<close>

lemma bnd_Inr_iff: "(bnd m f = Inr y) = (\<exists>x. m = Inr x \<and> f x = Inr y)"
  by (cases m) (simp_all add: bnd_def)

lemma bnd_Inr [simp]: "bnd (Inr x) f = f x"
  by (simp add: bnd_def)

lemma bnd_Inl [simp]: "bnd (Inl e) f = Inl e"
  by (simp add: bnd_def)

lemma py_round_near: "py_round x = Inr k \<Longrightarrow> \<bar>of_int k - num_val x\<bar> \<le> 1 / 2"
  using rhe_error by (cases x) auto

lemma py_gt_num: "py_gt x 0 = Inr b \<Longrightarrow> b = (0 < num_val x)"
  by (cases x) auto

lemma py_abs_num: "py_abs x = Inr a \<Longrightarrow> num_val a = \<bar>num_val x\<bar> \<and> is_number a"
  by (cases x) auto

lemma pow2_1000_1024: "pow2 1000 \<le> pow2 1024"
  by (rule pow2_mono) simp

lemma format_power_total:
  assumes "in_range x"
  shows "\<exists>s. format_power x u = Inr s"
proof -
  from assms have num: "is_number x" by (simp add: in_range_def)
  from assms have "\<bar>num_val x\<bar> < pow2 1000" by (simp add: in_range_def)
  then have fin: "\<bar>num_val x\<bar> < pow2 1024" using pow2_1000_1024 by linarith
  from fl64_thousandth [OF fin] obtain q where "fl64 (\<bar>num_val x\<bar> / 1000) = Some q" by blast
  from format_power_kW [OF num this] have kw: "\<exists>s. format_power x ''kW'' = Inr s" by blast
  from format_power_W [OF num] have w: "\<exists>s. format_power x ''W'' = Inr s" by blast
  show ?thesis
  proof (cases "u = ''kW'' \<or> u = ''W''")
    case True
    then show ?thesis using kw w by blast
  next
    case False
    then have "format_power x u
        = (if 1000 \<le> \<bar>num_val x\<bar> then format_power x ''kW'' else format_power x ''W'')"
      using format_power_auto [OF num, of u] by blast
    then show ?thesis using kw w by (cases "1000 \<le> \<bar>num_val x\<bar>") simp_all
  qed
qed

lemma in_range_field: "in_range (JInt 0)"
  by (simp add: in_range_def pow2_pos)

lemma to_float_total: "\<bar>x\<bar> < pow2 1023 \<Longrightarrow> \<exists>q. to_float x = Inr q"
  using fl64_in_range [of x] by (auto simp: to_float_def)

lemma py_mul_100_total:
  assumes "in_range x"
  shows "\<exists>y. py_mul x 100 = Inr y \<and> is_number y"
proof (cases x)
  case (JFloat r)
  have "pow2 1000 * 100 \<le> pow2 1000 * pow2 7" by (simp add: pow2_def)
  also have "\<dots> = pow2 1007" by (simp add: pow2_def flip: power_add)
  also have "\<dots> \<le> pow2 1023" by (rule pow2_mono) simp
  finally have "pow2 1000 * 100 \<le> pow2 1023" .
  moreover have "\<bar>r * 100\<bar> < pow2 1000 * 100" using assms JFloat by (simp add: in_range_def)
  ultimately have "\<bar>r * 100\<bar> < pow2 1023" by linarith
  from to_float_total [OF this] show ?thesis using JFloat by auto
qed (use assms in \<open>auto simp: in_range_def\<close>)

lemma py_round_total: "is_number y \<Longrightarrow> \<exists>k. py_round y = Inr k"
  by (cases y) auto

lemma py_abs_total: "is_number y \<Longrightarrow> \<exists>k. py_abs y = Inr k"
  by (cases y) auto

lemma py_gt_total: "is_number y \<Longrightarrow> \<exists>k. py_gt y c = Inr k"
  by (cases y) auto


lemma grid_power_raw_nested:
  "map_of state ''grid'' = Some (JObj g) \<Longrightarrow> map_of g ''power'' = Some v
   \<Longrightarrow> grid_power_raw state = py_or v (JInt 0)"
  by (simp add: grid_power_raw_def dict_get_def)

lemma grid_power_raw_legacy:
  assumes "\<forall>g. map_of state ''grid'' = Some (JObj g) \<longrightarrow> map_of g ''power'' = None"
  shows "grid_power_raw state = field_or_zero state ''gridPower''"
proof (cases "map_of state ''grid''")
  case None
  then show ?thesis by (simp add: grid_power_raw_def dict_get_def field_or_zero_def)
next
  case (Some x)
  then show ?thesis using assms
    by (cases x) (simp_all add: grid_power_raw_def dict_get_def field_or_zero_def)
qed

lemma field_or_zero_absent: "map_of d k = None \<Longrightarrow> field_or_zero d k = JInt 0"
  by (simp add: field_or_zero_def dict_get_def py_or_def)

lemma py_mul_round:
  assumes "py_mul x 100 = Inr y" "py_round y = Inr k"
  shows "(\<forall>i. x = JInt i \<longrightarrow> k = i * 100)
       \<and> (\<forall>r. x = JFloat r \<longrightarrow> (\<exists>q. fl64 (r * 100) = Some q \<and> k = rhe q \<and> \<bar>of_int k - q\<bar> \<le> 1 / 2))"
  using assms rhe_error
  by (cases x) (auto simp: bnd_Inr_iff to_float_def split: option.splits)

lemma transform_energy_result:
  assumes "transform_energy u state = Inr out"
  shows "\<exists>d ga k. out = JObj d
     \<and> map_of d ''grid_import'' = Some (JBool (0 < num_val (grid_power_raw state)))
     \<and> map_of d ''grid_power'' = Some ga \<and> is_number ga
     \<and> num_val ga = \<bar>num_val (grid_power_raw state)\<bar>
     \<and> map_of d ''green_share_home'' = Some (JInt k)
     \<and> (\<forall>i. field_or_zero state ''greenShareHome'' = JInt i \<longrightarrow> k = i * 100)
     \<and> (\<forall>r. field_or_zero state ''greenShareHome'' = JFloat r \<longrightarrow>
           (\<exists>q. fl64 (r * 100) = Some q \<and> k = rhe q \<and> \<bar>of_int k - q\<bar> \<le> 1 / 2))"
proof -
  from assms obtain pvf ga gf gi hf g100 k where
    ga: "py_abs (grid_power_raw state) = Inr ga" and
    gi: "py_gt (grid_power_raw state) 0 = Inr gi" and
    g100: "py_mul (field_or_zero state ''greenShareHome'') 100 = Inr g100" and
    k: "py_round g100 = Inr k" and
    out: "out = JObj
           [(''pv_power'', field_or_zero state ''pvPower''),
            (''pv_power_formatted'', JStr pvf),
            (''grid_power'', ga),
            (''grid_power_formatted'', JStr gf),
            (''grid_import'', JBool gi),
            (''home_power'', field_or_zero state ''homePower''),
            (''home_power_formatted'', JStr hf),
            (''green_share_home'', JInt k),
            (''tariff_grid'', dict_get_none state ''tariffGrid''),
            (''tariff_feedin'', dict_get_none state ''tariffFeedIn''),
            (''tariff_price_home'', dict_get_none state ''tariffPriceHome'')]"
    unfolding transform_energy_def Let_def bnd_Inr_iff field_or_zero_def by blast
  from py_gt_num [OF gi] have gi': "gi = (0 < num_val (grid_power_raw state))" .
  from py_abs_num [OF ga] have ga': "num_val ga = \<bar>num_val (grid_power_raw state)\<bar>" "is_number ga"
    by simp_all
  from py_mul_round [OF g100 k] have green:
    "(\<forall>i. field_or_zero state ''greenShareHome'' = JInt i \<longrightarrow> k = i * 100)
       \<and> (\<forall>r. field_or_zero state ''greenShareHome'' = JFloat r \<longrightarrow>
           (\<exists>q. fl64 (r * 100) = Some q \<and> k = rhe q \<and> \<bar>of_int k - q\<bar> \<le> 1 / 2))" .
  have "map_of
           [(''pv_power'', field_or_zero state ''pvPower''),
            (''pv_power_formatted'', JStr pvf),
            (''grid_power'', ga),
            (''grid_power_formatted'', JStr gf),
            (''grid_import'', JBool gi),
            (''home_power'', field_or_zero state ''homePower''),
            (''home_power_formatted'', JStr hf),
            (''green_share_home'', JInt k),
            (''tariff_grid'', dict_get_none state ''tariffGrid''),
            (''tariff_feedin'', dict_get_none state ''tariffFeedIn''),
            (''tariff_price_home'', dict_get_none state ''tariffPriceHome'')] ''grid_import'' = Some (JBool gi)"
    by simp
  then show ?thesis using out gi' ga' green by auto
qed

lemma transform_energy_total:
  assumes "in_range (field_or_zero state ''pvPower'')" "in_range (grid_power_raw state)"
    "in_range (field_or_zero state ''homePower'')" "in_range (field_or_zero state ''greenShareHome'')"
  shows "\<exists>out. transform_energy u state = Inr out"
proof -
  from format_power_total [OF assms(1)] obtain pvf
    where 1: "format_power (field_or_zero state ''pvPower'') u = Inr pvf" by blast
  from assms(2) have gnum: "is_number (grid_power_raw state)" by (simp add: in_range_def)
  from py_abs_total [OF gnum] obtain ga where 2: "py_abs (grid_power_raw state) = Inr ga" by blast
  from format_power_total [OF assms(2)] obtain gf
    where 3: "format_power (grid_power_raw state) u = Inr gf" by blast
  from py_gt_total [OF gnum] obtain gi where 4: "py_gt (grid_power_raw state) 0 = Inr gi" by blast
  from format_power_total [OF assms(3)] obtain hf
    where 5: "format_power (field_or_zero state ''homePower'') u = Inr hf" by blast
  from py_mul_100_total [OF assms(4)] obtain g100
    where 6: "py_mul (field_or_zero state ''greenShareHome'') 100 = Inr g100" and n: "is_number g100"
    by blast
  from py_round_total [OF n] obtain k where 7: "py_round g100 = Inr k" by blast
  show ?thesis
    unfolding transform_energy_def Let_def
    using 1 2 3 4 5 6 7 by (simp add: field_or_zero_def)
qed

text \<open>
  C3. The raw grid power is \<^verbatim>\<open>grid.power\<close> when the state has a dictionary "grid" with
  that key, otherwise the flat "gridPower", and 0 when that is missing too (a falsy
  value read counts as 0). Whenever \<^const>\<open>transform_energy\<close> returns, "grid_import" is
  true exactly when the raw grid power is strictly positive, "grid_power" is its
  absolute value, and "green_share_home" is the green share times 100, rounded to an
  integer. It returns whenever the four values read are numbers in range.
\<close>

theorem transform_energy_grid:
  "(\<forall>g v. map_of state ''grid'' = Some (JObj g) \<and> map_of g ''power'' = Some v
        \<longrightarrow> grid_power_raw state = py_or v (JInt 0))
   \<and> ((\<forall>g. map_of state ''grid'' = Some (JObj g) \<longrightarrow> map_of g ''power'' = None)
        \<longrightarrow> grid_power_raw state = field_or_zero state ''gridPower'')
   \<and> ((\<forall>g. map_of state ''grid'' = Some (JObj g) \<longrightarrow> map_of g ''power'' = None)
        \<and> map_of state ''gridPower'' = None \<longrightarrow> grid_power_raw state = JInt 0)
   \<and> (\<forall>out. transform_energy u state = Inr out \<longrightarrow>
        (\<exists>d ga k. out = JObj d
           \<and> map_of d ''grid_import'' = Some (JBool (0 < num_val (grid_power_raw state)))
           \<and> map_of d ''grid_power'' = Some ga \<and> is_number ga
           \<and> num_val ga = \<bar>num_val (grid_power_raw state)\<bar>
           \<and> map_of d ''green_share_home'' = Some (JInt k)
           \<and> (\<forall>i. field_or_zero state ''greenShareHome'' = JInt i \<longrightarrow> k = i * 100)
           \<and> (\<forall>r. field_or_zero state ''greenShareHome'' = JFloat r \<longrightarrow>
                 (\<exists>q. fl64 (r * 100) = Some q \<and> k = rhe q \<and> \<bar>of_int k - q\<bar> \<le> 1 / 2))))
   \<and> (in_range (field_or_zero state ''pvPower'') \<and> in_range (grid_power_raw state)
        \<and> in_range (field_or_zero state ''homePower'')
        \<and> in_range (field_or_zero state ''greenShareHome'')
        \<longrightarrow> (\<exists>out. transform_energy u state = Inr out))"
proof -
  have a: "\<forall>g v. map_of state ''grid'' = Some (JObj g) \<and> map_of g ''power'' = Some v
        \<longrightarrow> grid_power_raw state = py_or v (JInt 0)"
    using grid_power_raw_nested by blast
  have b: "(\<forall>g. map_of state ''grid'' = Some (JObj g) \<longrightarrow> map_of g ''power'' = None)
        \<longrightarrow> grid_power_raw state = field_or_zero state ''gridPower''"
    using grid_power_raw_legacy by blast
  have c: "(\<forall>g. map_of state ''grid'' = Some (JObj g) \<longrightarrow> map_of g ''power'' = None)
        \<and> map_of state ''gridPower'' = None \<longrightarrow> grid_power_raw state = JInt 0"
    using grid_power_raw_legacy [of state] field_or_zero_absent [of state "''gridPower''"] by simp
  show ?thesis
    using a b c transform_energy_result [of u state] transform_energy_total [of state u]
    by blast
qed

lemma in_range_small: "is_number x \<Longrightarrow> \<bar>num_val x\<bar> < 1024 \<Longrightarrow> in_range x"
proof -
  assume n: "is_number x" and b: "\<bar>num_val x\<bar> < 1024"
  have "pow2 10 \<le> pow2 1000" by (rule pow2_mono) simp
  moreover have "pow2 10 = 1024" by (simp add: pow2_def)
  ultimately show ?thesis using n b by (simp add: in_range_def)
qed

theorem transform_energy_grid_witness:
  "grid_power_raw [(''grid'', JObj [(''power'', JInt (- 500))])] = JInt (- 500)
   \<and> grid_power_raw [(''gridPower'', JInt 500)] = JInt 500
   \<and> grid_power_raw [] = JInt 0
   \<and> transform_energy ''auto'' [(''grid'', JObj [(''power'', JInt (- 500))])]
      = Inr (JObj
           [(''pv_power'', JInt 0),
            (''pv_power_formatted'', JStr ''0 W''),
            (''grid_power'', JInt 500),
            (''grid_power_formatted'', JStr ''500 W''),
            (''grid_import'', JBool False),
            (''home_power'', JInt 0),
            (''home_power_formatted'', JStr ''0 W''),
            (''green_share_home'', JInt 0),
            (''tariff_grid'', JNull),
            (''tariff_feedin'', JNull),
            (''tariff_price_home'', JNull)])
   \<and> (\<exists>d. transform_energy ''auto'' [(''gridPower'', JInt 500)] = Inr (JObj d)
          \<and> map_of d ''grid_import'' = Some (JBool True))"
proof -
  let ?s1 = "[(''grid'', JObj [(''power'', JInt (- 500))])]"
  let ?s2 = "[(''gridPower'', JInt 500)]"
  have r1: "grid_power_raw ?s1 = JInt (- 500)"
    using transform_energy_grid [of ?s1 "''auto''", THEN conjunct1] by (simp add: py_or_def)
  have r2: "grid_power_raw ?s2 = JInt 500"
    using transform_energy_grid [of ?s2 "''auto''", THEN conjunct2, THEN conjunct1]
    by (simp add: field_or_zero_def py_or_def dict_get_def)
  have r3: "grid_power_raw [] = JInt 0"
    using transform_energy_grid [of "[]" "''auto''", THEN conjunct2, THEN conjunct2, THEN conjunct1]
    by simp
  have e1: "transform_energy ''auto'' ?s1 = Inr (JObj
           [(''pv_power'', JInt 0),
            (''pv_power_formatted'', JStr ''0 W''),
            (''grid_power'', JInt 500),
            (''grid_power_formatted'', JStr ''500 W''),
            (''grid_import'', JBool False),
            (''home_power'', JInt 0),
            (''home_power_formatted'', JStr ''0 W''),
            (''green_share_home'', JInt 0),
            (''tariff_grid'', JNull),
            (''tariff_feedin'', JNull),
            (''tariff_price_home'', JNull)])"
    by code_simp
  have z: "field_or_zero ?s2 k = (if k = ''gridPower'' then JInt 500 else JInt 0)" for k
    by (simp add: field_or_zero_def py_or_def dict_get_def)
  have "\<exists>out. transform_energy ''auto'' ?s2 = Inr out"
    using transform_energy_grid [of ?s2 "''auto''", THEN conjunct2, THEN conjunct2,
        THEN conjunct2, THEN conjunct2] r2
    by (simp add: z in_range_small)
  then obtain out where o: "transform_energy ''auto'' ?s2 = Inr out" by blast
  with transform_energy_grid [of ?s2 "''auto''", THEN conjunct2, THEN conjunct2,
        THEN conjunct2, THEN conjunct1] r2
  have "\<exists>d. out = JObj d \<and> map_of d ''grid_import'' = Some (JBool True)"
    by auto
  with o r1 r2 r3 e1 show ?thesis by simp
qed

section \<open>Properties of the battery summary\<close>













section \<open>Properties of the statistics summary\<close>

lemma py_get_Inr: "py_get x k d = Inr v \<Longrightarrow> \<exists>o'. x = JObj o' \<and> v = dict_get o' k d"
  by (cases x) auto

lemma round_decimal_near:
  "\<bar>of_int (rhe (r * 10 ^ n)) / 10 ^ n - r\<bar> \<le> 1 / (2 * 10 ^ n)"
proof -
  have p: "(0::rat) < 10 ^ n" by simp
  have "\<bar>of_int (rhe (r * 10 ^ n)) - r * 10 ^ n\<bar> \<le> 1 / 2" by (rule rhe_error)
  then have "\<bar>of_int (rhe (r * 10 ^ n)) - r * 10 ^ n\<bar> / 10 ^ n \<le> (1 / 2) / 10 ^ n"
    using p by (simp only: divide_le_cancel) simp
  moreover have "\<bar>of_int (rhe (r * 10 ^ n)) - r * 10 ^ n\<bar> / 10 ^ n
      = \<bar>of_int (rhe (r * 10 ^ n)) / 10 ^ n - r\<bar>"
  proof -
    have "\<bar>of_int (rhe (r * 10 ^ n)) - r * 10 ^ n\<bar> / 10 ^ n
        = \<bar>(of_int (rhe (r * 10 ^ n)) - r * 10 ^ n) / 10 ^ n\<bar>"
      using p by (simp add: abs_divide)
    also have "(of_int (rhe (r * 10 ^ n)) - r * 10 ^ n) / 10 ^ n
        = of_int (rhe (r * 10 ^ n)) / 10 ^ n - r"
      using p by (simp add: diff_divide_distrib)
    finally show ?thesis .
  qed
  ultimately show ?thesis by simp
qed

lemma round_opt_spec:
  assumes "round_opt x n = Inr y"
  shows "(y = JNull \<longleftrightarrow> x = JNull)
       \<and> (\<forall>i. x = JInt i \<longrightarrow> y = JInt i)
       \<and> (\<forall>r. x = JFloat r \<longrightarrow>
            (\<exists>q. y = JFloat q \<and> fl64 (of_int (rhe (r * 10 ^ n)) / 10 ^ n) = Some q
               \<and> \<bar>of_int (rhe (r * 10 ^ n)) / 10 ^ n - r\<bar> \<le> 1 / (2 * 10 ^ n)))"
  using assms round_decimal_near [of _ n]
  by (cases x) (auto simp: round_opt_def bnd_Inr_iff to_float_def split: option.splits if_splits)

lemma round_int_opt_spec:
  assumes "round_int_opt x = Inr y"
  shows "(y = JNull \<longleftrightarrow> x = JNull)
       \<and> (\<forall>i. x = JInt i \<longrightarrow> y = JInt i)
       \<and> (\<forall>r. x = JFloat r \<longrightarrow> y = JInt (rhe r) \<and> \<bar>of_int (rhe r) - r\<bar> \<le> 1 / 2)"
  using assms rhe_error
  by (cases x) (auto simp: round_int_opt_def bnd_Inr_iff split: if_splits)


lemma round_opt_total:
  assumes "stat_ok x"
  shows "\<exists>y. round_opt x n = Inr y"
proof (cases x)
  case (JFloat r)
  with assms have r: "\<bar>r\<bar> < pow2 1000" by (simp add: stat_ok_def in_range_def)
  have "(1::rat) \<le> 10 ^ n" by simp
  then have "(1::rat) \<le> 2 * 10 ^ n" by linarith
  then have "(1::rat) / (2 * 10 ^ n) \<le> 1" by (simp add: divide_le_eq)
  with round_decimal_near [of r n]
  have "\<bar>of_int (rhe (r * 10 ^ n)) / 10 ^ n\<bar> \<le> \<bar>r\<bar> + 1" by linarith
  moreover have "1 \<le> pow2 1000" using pow2_mono [of 0 1000] by (simp add: pow2_def)
  moreover have "pow2 1000 + pow2 1000 \<le> pow2 1023"
  proof -
    have "pow2 1000 + pow2 1000 = pow2 1001" by (simp add: pow2_def)
    also have "\<dots> \<le> pow2 1023" by (rule pow2_mono) simp
    finally show ?thesis .
  qed
  ultimately have "\<bar>of_int (rhe (r * 10 ^ n)) / 10 ^ n\<bar> < pow2 1023" using r by linarith
  from to_float_total [OF this] show ?thesis using JFloat by (auto simp: round_opt_def)
qed (use assms in \<open>auto simp: round_opt_def stat_ok_def in_range_def\<close>)

lemma round_int_opt_total:
  assumes "stat_ok x"
  shows "\<exists>y. round_int_opt x = Inr y"
  using assms by (cases x) (auto simp: round_int_opt_def stat_ok_def in_range_def)

lemma period_statistics_result:
  assumes "period_statistics stats period = Inr res"
  shows "\<exists>st pd c s p. stats = JObj st \<and> dict_get st period (JObj []) = JObj pd
     \<and> round_opt (dict_get pd ''chargedKWh'' JNull) 1 = Inr c
     \<and> round_int_opt (dict_get pd ''solarPercentage'' JNull) = Inr s
     \<and> round_opt (dict_get pd ''avgPrice'' JNull) 2 = Inr p
     \<and> res = JObj [(''charged_kwh'', c), (''solar_pct'', s), (''avg_price'', p)]"
proof -
  from assms obtain period_data charged solar price c s p where
    1: "py_get stats period (JObj []) = Inr period_data" and
    2: "py_get period_data ''chargedKWh'' JNull = Inr charged" and
    3: "py_get period_data ''solarPercentage'' JNull = Inr solar" and
    4: "py_get period_data ''avgPrice'' JNull = Inr price" and
    5: "round_opt charged 1 = Inr c" and
    6: "round_int_opt solar = Inr s" and
    7: "round_opt price 2 = Inr p" and
    8: "res = JObj [(''charged_kwh'', c), (''solar_pct'', s), (''avg_price'', p)]"
    unfolding period_statistics_def bnd_Inr_iff by blast
  from py_get_Inr [OF 1] obtain st where st: "stats = JObj st" "period_data = dict_get st period (JObj [])"
    by blast
  from py_get_Inr [OF 2] obtain pd where pd: "period_data = JObj pd" "charged = dict_get pd ''chargedKWh'' JNull"
    by blast
  from py_get_Inr [OF 3] pd have so: "solar = dict_get pd ''solarPercentage'' JNull" by auto
  from py_get_Inr [OF 4] pd have pr: "price = dict_get pd ''avgPrice'' JNull" by auto
  from st pd have d: "dict_get st period (JObj []) = JObj pd" by simp
  from 5 pd have r5: "round_opt (dict_get pd ''chargedKWh'' JNull) 1 = Inr c" by simp
  from 6 so have r6: "round_int_opt (dict_get pd ''solarPercentage'' JNull) = Inr s" by simp
  from 7 pr have r7: "round_opt (dict_get pd ''avgPrice'' JNull) 2 = Inr p" by simp
  show ?thesis using st(1) d r5 r6 r7 8 by blast
qed

lemma period_statistics_total:
  assumes "period_ok st period"
  shows "\<exists>res. period_statistics (JObj st) period = Inr res"
proof -
  from assms obtain pd where pd: "dict_get st period (JObj []) = JObj pd"
    and a: "stat_ok (dict_get pd ''chargedKWh'' JNull)"
    and b: "stat_ok (dict_get pd ''solarPercentage'' JNull)"
    and c: "stat_ok (dict_get pd ''avgPrice'' JNull)"
    by (auto simp: period_ok_def split: json.splits)
  from round_opt_total [OF a, of 1] obtain y1 where 1: "round_opt (dict_get pd ''chargedKWh'' JNull) 1 = Inr y1"
    by blast
  from round_int_opt_total [OF b] obtain y2 where 2: "round_int_opt (dict_get pd ''solarPercentage'' JNull) = Inr y2"
    by blast
  from round_opt_total [OF c, of 2] obtain y3 where 3: "round_opt (dict_get pd ''avgPrice'' JNull) 2 = Inr y3"
    by blast
  show ?thesis using pd 1 2 3 by (simp add: period_statistics_def)
qed

lemma transform_statistics_total:
  assumes "statistics_ok state"
  shows "\<exists>out. transform_statistics state = Inr out"
proof -
  from assms obtain st where st: "dict_get state ''statistics'' (JObj []) = JObj st"
    and a: "period_ok st ''30d''" and b: "period_ok st ''total''"
    by (auto simp: statistics_ok_def split: json.splits)
  from period_statistics_total [OF a] obtain r1 where 1: "period_statistics (JObj st) ''30d'' = Inr r1"
    by blast
  from period_statistics_total [OF b] obtain r2 where 2: "period_statistics (JObj st) ''total'' = Inr r2"
    by blast
  show ?thesis using st 1 2 by (simp add: transform_statistics_def)
qed

lemma transform_statistics_period:
  assumes run: "transform_statistics state = Inr out"
    and per: "period = ''30d'' \<or> period = ''total''"
  shows "\<exists>c s p.
      stat_field out period ''charged_kwh'' = Some c
    \<and> stat_field out period ''solar_pct'' = Some s
    \<and> stat_field out period ''avg_price'' = Some p
    \<and> round_opt (stat_source state period ''chargedKWh'') 1 = Inr c
    \<and> round_int_opt (stat_source state period ''solarPercentage'') = Inr s
    \<and> round_opt (stat_source state period ''avgPrice'') 2 = Inr p"
proof -
  from run obtain r30 rtotal where
    a: "period_statistics (dict_get state ''statistics'' (JObj [])) ''30d'' = Inr r30" and
    b: "period_statistics (dict_get state ''statistics'' (JObj [])) ''total'' = Inr rtotal" and
    out: "out = JObj [(''30d'', r30), (''total'', rtotal)]"
    unfolding transform_statistics_def Let_def bnd_Inr_iff by blast
  from per show ?thesis
  proof
    assume p: "period = ''30d''"
    from period_statistics_result [OF a] obtain st pd c s pr where
      "dict_get state ''statistics'' (JObj []) = JObj st" "dict_get st ''30d'' (JObj []) = JObj pd"
      "round_opt (dict_get pd ''chargedKWh'' JNull) 1 = Inr c"
      "round_int_opt (dict_get pd ''solarPercentage'' JNull) = Inr s"
      "round_opt (dict_get pd ''avgPrice'' JNull) 2 = Inr pr"
      "r30 = JObj [(''charged_kwh'', c), (''solar_pct'', s), (''avg_price'', pr)]"
      by blast
    then show ?thesis using out p by (simp add: stat_field_def stat_source_def)
  next
    assume p: "period = ''total''"
    from period_statistics_result [OF b] obtain st pd c s pr where
      "dict_get state ''statistics'' (JObj []) = JObj st" "dict_get st ''total'' (JObj []) = JObj pd"
      "round_opt (dict_get pd ''chargedKWh'' JNull) 1 = Inr c"
      "round_int_opt (dict_get pd ''solarPercentage'' JNull) = Inr s"
      "round_opt (dict_get pd ''avgPrice'' JNull) 2 = Inr pr"
      "rtotal = JObj [(''charged_kwh'', c), (''solar_pct'', s), (''avg_price'', pr)]"
      by blast
    then show ?thesis using out p by (simp add: stat_field_def stat_source_def)
  qed
qed


text \<open>
  C2. Whenever \<^const>\<open>transform_statistics\<close> returns, each of the periods "30d" and
  "total" has the three fields "charged_kwh", "solar_pct" and "avg_price"; each is
  \<^verbatim>\<open>None\<close> exactly when its source field has no value (it is missing at some level,
  or \<^verbatim>\<open>None\<close>), so a missing source never becomes 0; an int source stays as it is,
  and a float source is rounded to one decimal, to an integer, and to two decimals.
  The function returns for every well-formed state.
\<close>

theorem transform_statistics_nulls:
  "(\<forall>out period. transform_statistics state = Inr out \<and> (period = ''30d'' \<or> period = ''total'') \<longrightarrow>
      (\<exists>c s p.
          stat_field out period ''charged_kwh'' = Some c
        \<and> stat_field out period ''solar_pct'' = Some s
        \<and> stat_field out period ''avg_price'' = Some p
        \<and> (c = JNull \<longleftrightarrow> stat_source state period ''chargedKWh'' = JNull)
        \<and> (s = JNull \<longleftrightarrow> stat_source state period ''solarPercentage'' = JNull)
        \<and> (p = JNull \<longleftrightarrow> stat_source state period ''avgPrice'' = JNull)
        \<and> (\<forall>i. stat_source state period ''chargedKWh'' = JInt i \<longrightarrow> c = JInt i)
        \<and> (\<forall>r. stat_source state period ''chargedKWh'' = JFloat r \<longrightarrow>
              (\<exists>q. c = JFloat q \<and> fl64 (of_int (rhe (r * 10)) / 10) = Some q
                 \<and> \<bar>of_int (rhe (r * 10)) / 10 - r\<bar> \<le> 1 / 20))
        \<and> (\<forall>i. stat_source state period ''solarPercentage'' = JInt i \<longrightarrow> s = JInt i)
        \<and> (\<forall>r. stat_source state period ''solarPercentage'' = JFloat r \<longrightarrow>
              s = JInt (rhe r) \<and> \<bar>of_int (rhe r) - r\<bar> \<le> 1 / 2)
        \<and> (\<forall>i. stat_source state period ''avgPrice'' = JInt i \<longrightarrow> p = JInt i)
        \<and> (\<forall>r. stat_source state period ''avgPrice'' = JFloat r \<longrightarrow>
              (\<exists>q. p = JFloat q \<and> fl64 (of_int (rhe (r * 100)) / 100) = Some q
                 \<and> \<bar>of_int (rhe (r * 100)) / 100 - r\<bar> \<le> 1 / 200))))
   \<and> (statistics_ok state \<longrightarrow> (\<exists>out. transform_statistics state = Inr out))"
proof (intro conjI allI impI)
  fix out period
  assume h: "transform_statistics state = Inr out \<and> (period = ''30d'' \<or> period = ''total'')"
  from transform_statistics_period [of state out period] h obtain c s p where
    f: "stat_field out period ''charged_kwh'' = Some c"
       "stat_field out period ''solar_pct'' = Some s"
       "stat_field out period ''avg_price'' = Some p" and
    rc: "round_opt (stat_source state period ''chargedKWh'') 1 = Inr c" and
    rs: "round_int_opt (stat_source state period ''solarPercentage'') = Inr s" and
    rp: "round_opt (stat_source state period ''avgPrice'') 2 = Inr p"
    by blast
  from round_opt_spec [OF rc] have c:
    "(c = JNull \<longleftrightarrow> stat_source state period ''chargedKWh'' = JNull)
     \<and> (\<forall>i. stat_source state period ''chargedKWh'' = JInt i \<longrightarrow> c = JInt i)
     \<and> (\<forall>r. stat_source state period ''chargedKWh'' = JFloat r \<longrightarrow>
              (\<exists>q. c = JFloat q \<and> fl64 (of_int (rhe (r * 10)) / 10) = Some q
                 \<and> \<bar>of_int (rhe (r * 10)) / 10 - r\<bar> \<le> 1 / 20))"
    by simp
  from round_int_opt_spec [OF rs] have s:
    "(s = JNull \<longleftrightarrow> stat_source state period ''solarPercentage'' = JNull)
     \<and> (\<forall>i. stat_source state period ''solarPercentage'' = JInt i \<longrightarrow> s = JInt i)
     \<and> (\<forall>r. stat_source state period ''solarPercentage'' = JFloat r \<longrightarrow>
              s = JInt (rhe r) \<and> \<bar>of_int (rhe r) - r\<bar> \<le> 1 / 2)" .
  from round_opt_spec [OF rp] have p:
    "(p = JNull \<longleftrightarrow> stat_source state period ''avgPrice'' = JNull)
     \<and> (\<forall>i. stat_source state period ''avgPrice'' = JInt i \<longrightarrow> p = JInt i)
     \<and> (\<forall>r. stat_source state period ''avgPrice'' = JFloat r \<longrightarrow>
              (\<exists>q. p = JFloat q \<and> fl64 (of_int (rhe (r * 100)) / 100) = Some q
                 \<and> \<bar>of_int (rhe (r * 100)) / 100 - r\<bar> \<le> 1 / 200))"
    by simp
  show "\<exists>c s p.
          stat_field out period ''charged_kwh'' = Some c
        \<and> stat_field out period ''solar_pct'' = Some s
        \<and> stat_field out period ''avg_price'' = Some p
        \<and> (c = JNull \<longleftrightarrow> stat_source state period ''chargedKWh'' = JNull)
        \<and> (s = JNull \<longleftrightarrow> stat_source state period ''solarPercentage'' = JNull)
        \<and> (p = JNull \<longleftrightarrow> stat_source state period ''avgPrice'' = JNull)
        \<and> (\<forall>i. stat_source state period ''chargedKWh'' = JInt i \<longrightarrow> c = JInt i)
        \<and> (\<forall>r. stat_source state period ''chargedKWh'' = JFloat r \<longrightarrow>
              (\<exists>q. c = JFloat q \<and> fl64 (of_int (rhe (r * 10)) / 10) = Some q
                 \<and> \<bar>of_int (rhe (r * 10)) / 10 - r\<bar> \<le> 1 / 20))
        \<and> (\<forall>i. stat_source state period ''solarPercentage'' = JInt i \<longrightarrow> s = JInt i)
        \<and> (\<forall>r. stat_source state period ''solarPercentage'' = JFloat r \<longrightarrow>
              s = JInt (rhe r) \<and> \<bar>of_int (rhe r) - r\<bar> \<le> 1 / 2)
        \<and> (\<forall>i. stat_source state period ''avgPrice'' = JInt i \<longrightarrow> p = JInt i)
        \<and> (\<forall>r. stat_source state period ''avgPrice'' = JFloat r \<longrightarrow>
              (\<exists>q. p = JFloat q \<and> fl64 (of_int (rhe (r * 100)) / 100) = Some q
                 \<and> \<bar>of_int (rhe (r * 100)) / 100 - r\<bar> \<le> 1 / 200))"
  proof (intro exI conjI)
    show "stat_field out period ''charged_kwh'' = Some c" by (rule f(1))
    show "stat_field out period ''solar_pct'' = Some s" by (rule f(2))
    show "stat_field out period ''avg_price'' = Some p" by (rule f(3))
    show "(c = JNull) = (stat_source state period ''chargedKWh'' = JNull)"
      using c by (rule conjunct1)
    show "(s = JNull) = (stat_source state period ''solarPercentage'' = JNull)"
      using s by (rule conjunct1)
    show "(p = JNull) = (stat_source state period ''avgPrice'' = JNull)"
      using p by (rule conjunct1)
    show "\<forall>i. stat_source state period ''chargedKWh'' = JInt i \<longrightarrow> c = JInt i"
      using c [THEN conjunct2] by (rule conjunct1)
    show "\<forall>r. stat_source state period ''chargedKWh'' = JFloat r \<longrightarrow>
              (\<exists>q. c = JFloat q \<and> fl64 (of_int (rhe (r * 10)) / 10) = Some q
                 \<and> \<bar>of_int (rhe (r * 10)) / 10 - r\<bar> \<le> 1 / 20)"
      using c [THEN conjunct2] by (rule conjunct2)
    show "\<forall>i. stat_source state period ''solarPercentage'' = JInt i \<longrightarrow> s = JInt i"
      using s [THEN conjunct2] by (rule conjunct1)
    show "\<forall>r. stat_source state period ''solarPercentage'' = JFloat r \<longrightarrow>
              s = JInt (rhe r) \<and> \<bar>of_int (rhe r) - r\<bar> \<le> 1 / 2"
      using s [THEN conjunct2] by (rule conjunct2)
    show "\<forall>i. stat_source state period ''avgPrice'' = JInt i \<longrightarrow> p = JInt i"
      using p [THEN conjunct2] by (rule conjunct1)
    show "\<forall>r. stat_source state period ''avgPrice'' = JFloat r \<longrightarrow>
              (\<exists>q. p = JFloat q \<and> fl64 (of_int (rhe (r * 100)) / 100) = Some q
                 \<and> \<bar>of_int (rhe (r * 100)) / 100 - r\<bar> \<le> 1 / 200)"
      using p [THEN conjunct2] by (rule conjunct2)
  qed
next
  assume "statistics_ok state"
  then show "\<exists>out. transform_statistics state = Inr out" by (rule transform_statistics_total)
qed


theorem transform_statistics_nulls_witness:
  "statistics_ok []
   \<and> (\<exists>out. transform_statistics [] = Inr out
        \<and> stat_field out ''30d'' ''charged_kwh'' = Some JNull
        \<and> stat_field out ''30d'' ''solar_pct'' = Some JNull
        \<and> stat_field out ''30d'' ''avg_price'' = Some JNull
        \<and> stat_field out ''total'' ''charged_kwh'' = Some JNull
        \<and> stat_field out ''total'' ''solar_pct'' = Some JNull
        \<and> stat_field out ''total'' ''avg_price'' = Some JNull)
   \<and> transform_statistics
        [(''statistics'', JObj [(''30d'', JObj [(''chargedKWh'', JInt 120),
                                                 (''solarPercentage'', JFloat (5 / 2))])])]
      = Inr (JObj [(''30d'', JObj [(''charged_kwh'', JInt 120), (''solar_pct'', JInt 2),
                                   (''avg_price'', JNull)]),
                   (''total'', JObj [(''charged_kwh'', JNull), (''solar_pct'', JNull),
                                     (''avg_price'', JNull)])])"
proof -
  have ok: "statistics_ok []"
    by (simp add: statistics_ok_def period_ok_def dict_get_def stat_ok_def)
  from transform_statistics_nulls [of "[]", THEN conjunct2] ok
  obtain out where o: "transform_statistics [] = Inr out" by blast
  have src: "stat_source [] period k = JNull" for period k
    by (simp add: stat_source_def dict_get_def)
  from transform_statistics_nulls [of "[]", THEN conjunct1, rule_format, of out "''30d''"] o
  have a: "stat_field out ''30d'' ''charged_kwh'' = Some JNull
        \<and> stat_field out ''30d'' ''solar_pct'' = Some JNull
        \<and> stat_field out ''30d'' ''avg_price'' = Some JNull"
    by (auto simp: src)
  from transform_statistics_nulls [of "[]", THEN conjunct1, rule_format, of out "''total''"] o
  have b: "stat_field out ''total'' ''charged_kwh'' = Some JNull
        \<and> stat_field out ''total'' ''solar_pct'' = Some JNull
        \<and> stat_field out ''total'' ''avg_price'' = Some JNull"
    by (auto simp: src)
  have c: "transform_statistics
        [(''statistics'', JObj [(''30d'', JObj [(''chargedKWh'', JInt 120),
                                                 (''solarPercentage'', JFloat (5 / 2))])])]
      = Inr (JObj [(''30d'', JObj [(''charged_kwh'', JInt 120), (''solar_pct'', JInt 2),
                                   (''avg_price'', JNull)]),
                   (''total'', JObj [(''charged_kwh'', JNull), (''solar_pct'', JNull),
                                     (''avg_price'', JNull)])])"
    by code_simp
  from ok o a b c show ?thesis by blast
qed

section \<open>Properties of the dispatcher\<close>

lemma send_print:
  "dry_run cfg \<or> webhook_url cfg = [] \<Longrightarrow>
   send cfg p posted w = (w\<lparr>trace := trace w @ [Printed p]\<rparr>, Inr True)"
  by (simp add: send_def)

lemma send_post_ok:
  "\<not> dry_run cfg \<Longrightarrow> webhook_url cfg \<noteq> [] \<Longrightarrow> posted = Inr (Response code body)
   \<Longrightarrow> \<not> (400 \<le> code \<and> code < 600)
   \<Longrightarrow> send cfg p posted w = (w\<lparr>trace := trace w @ [Posted (webhook_url cfg) p]\<rparr>, Inr True)"
  by (simp add: send_def Let_def)

lemma send_post_status:
  "\<not> dry_run cfg \<Longrightarrow> webhook_url cfg \<noteq> [] \<Longrightarrow> posted = Inr (Response code body)
   \<Longrightarrow> 400 \<le> code \<and> code < 600
   \<Longrightarrow> send cfg p posted w = (w\<lparr>trace := trace w @ [Posted (webhook_url cfg) p]\<rparr>, Inr False)"
  by (simp add: send_def Let_def)

lemma send_post_raise:
  "\<not> dry_run cfg \<Longrightarrow> webhook_url cfg \<noteq> [] \<Longrightarrow> posted = Inl e
   \<Longrightarrow> is_request_exception e
   \<Longrightarrow> send cfg p posted w = (w\<lparr>trace := trace w @ [Posted (webhook_url cfg) p]\<rparr>, Inr False)"
  by (simp add: send_def Let_def)

text \<open>
  C8. When delivery is suppressed (dry run) or no webhook is configured, \<^const>\<open>send\<close>
  prints the payload, performs no POST and returns true. Otherwise it performs one
  POST to the webhook and returns true when the status is outside 400 to 599, false
  when the status is in that range or the request raises a
  \<^verbatim>\<open>RequestException\<close>. As long as what the request raises is such an exception,
  \<^const>\<open>send\<close> returns a boolean and raises nothing.
\<close>

theorem send_outcome:
  "(dry_run cfg \<or> webhook_url cfg = [] \<longrightarrow>
      send cfg p posted w = (w\<lparr>trace := trace w @ [Printed p]\<rparr>, Inr True))
   \<and> (\<not> dry_run cfg \<and> webhook_url cfg \<noteq> [] \<longrightarrow>
        (\<forall>code body. posted = Inr (Response code body) \<and> \<not> (400 \<le> code \<and> code < 600) \<longrightarrow>
           send cfg p posted w = (w\<lparr>trace := trace w @ [Posted (webhook_url cfg) p]\<rparr>, Inr True))
      \<and> (\<forall>code body. posted = Inr (Response code body) \<and> 400 \<le> code \<and> code < 600 \<longrightarrow>
           send cfg p posted w = (w\<lparr>trace := trace w @ [Posted (webhook_url cfg) p]\<rparr>, Inr False))
      \<and> (\<forall>e. posted = Inl e \<and> is_request_exception e \<longrightarrow>
           send cfg p posted w = (w\<lparr>trace := trace w @ [Posted (webhook_url cfg) p]\<rparr>, Inr False)))
   \<and> ((\<forall>e. posted = Inl e \<longrightarrow> is_request_exception e) \<longrightarrow>
        (\<exists>w' b. send cfg p posted w = (w', Inr b)))"
proof (intro conjI impI allI)
  assume "dry_run cfg \<or> webhook_url cfg = []"
  then show "send cfg p posted w = (w\<lparr>trace := trace w @ [Printed p]\<rparr>, Inr True)"
    by (rule send_print)
next
  fix code body
  assume "\<not> dry_run cfg \<and> webhook_url cfg \<noteq> []"
    and "posted = Inr (Response code body) \<and> \<not> (400 \<le> code \<and> code < 600)"
  then show "send cfg p posted w = (w\<lparr>trace := trace w @ [Posted (webhook_url cfg) p]\<rparr>, Inr True)"
    using send_post_ok by blast
next
  fix code body
  assume "\<not> dry_run cfg \<and> webhook_url cfg \<noteq> []"
    and "posted = Inr (Response code body) \<and> 400 \<le> code \<and> code < 600"
  then show "send cfg p posted w = (w\<lparr>trace := trace w @ [Posted (webhook_url cfg) p]\<rparr>, Inr False)"
    using send_post_status by blast
next
  fix e
  assume "\<not> dry_run cfg \<and> webhook_url cfg \<noteq> []"
    and "posted = Inl e \<and> is_request_exception e"
  then show "send cfg p posted w = (w\<lparr>trace := trace w @ [Posted (webhook_url cfg) p]\<rparr>, Inr False)"
    using send_post_raise by blast
next
  assume h: "\<forall>e. posted = Inl e \<longrightarrow> is_request_exception e"
  show "\<exists>w' b. send cfg p posted w = (w', Inr b)"
  proof (cases "dry_run cfg \<or> webhook_url cfg = []")
    case True
    then show ?thesis using send_print by blast
  next
    case False
    then have nd: "\<not> dry_run cfg" and wh: "webhook_url cfg \<noteq> []" by simp_all
    show ?thesis
    proof (cases posted)
      case (Inl e)
      with h have "is_request_exception e" by simp
      from send_post_raise [OF nd wh Inl this] show ?thesis by blast
    next
      case (Inr resp)
      then obtain code body where r: "posted = Inr (Response code body)" by (cases resp) simp
      show ?thesis
      proof (cases "400 \<le> code \<and> code < 600")
        case True
        from send_post_status [OF nd wh r True] show ?thesis by blast
      next
        case False
        from send_post_ok [OF nd wh r False] show ?thesis by blast
      qed
    qed
  qed
qed

theorem send_outcome_witness:
  "send \<lparr>url = ''http://evcc:7070'', webhook = Some ''https://hook'', timezone = [],
          max_loadpoints = 4, power_unit = ''auto'', verbose = False, dry_run = True\<rparr>
        (JObj []) (Inl Timeout) initial_world
     = (\<lparr>serve_data = Map.empty, trace = [Printed (JObj [])]\<rparr>, Inr True)
   \<and> send \<lparr>url = ''http://evcc:7070'', webhook = None, timezone = [],
          max_loadpoints = 4, power_unit = ''auto'', verbose = False, dry_run = False\<rparr>
        (JObj []) (Inl Timeout) initial_world
     = (\<lparr>serve_data = Map.empty, trace = [Printed (JObj [])]\<rparr>, Inr True)
   \<and> send \<lparr>url = ''http://evcc:7070'', webhook = Some ''https://hook'', timezone = [],
          max_loadpoints = 4, power_unit = ''auto'', verbose = False, dry_run = False\<rparr>
        (JObj []) (Inr (Response 200 None)) initial_world
     = (\<lparr>serve_data = Map.empty, trace = [Posted ''https://hook'' (JObj [])]\<rparr>, Inr True)
   \<and> send \<lparr>url = ''http://evcc:7070'', webhook = Some ''https://hook'', timezone = [],
          max_loadpoints = 4, power_unit = ''auto'', verbose = False, dry_run = False\<rparr>
        (JObj []) (Inr (Response 500 None)) initial_world
     = (\<lparr>serve_data = Map.empty, trace = [Posted ''https://hook'' (JObj [])]\<rparr>, Inr False)
   \<and> send \<lparr>url = ''http://evcc:7070'', webhook = Some ''https://hook'', timezone = [],
          max_loadpoints = 4, power_unit = ''auto'', verbose = False, dry_run = False\<rparr>
        (JObj []) (Inl Timeout) initial_world
     = (\<lparr>serve_data = Map.empty, trace = [Posted ''https://hook'' (JObj [])]\<rparr>, Inr False)"
proof -
  let ?dry = "\<lparr>url = ''http://evcc:7070'', webhook = Some ''https://hook'', timezone = [],
          max_loadpoints = 4, power_unit = ''auto'', verbose = False, dry_run = True\<rparr>"
  let ?none = "\<lparr>url = ''http://evcc:7070'', webhook = None, timezone = [],
          max_loadpoints = 4, power_unit = ''auto'', verbose = False, dry_run = False\<rparr>"
  let ?push = "\<lparr>url = ''http://evcc:7070'', webhook = Some ''https://hook'', timezone = [],
          max_loadpoints = 4, power_unit = ''auto'', verbose = False, dry_run = False\<rparr>"
  have 1: "send ?dry (JObj []) (Inl Timeout) initial_world
     = (\<lparr>serve_data = Map.empty, trace = [Printed (JObj [])]\<rparr>, Inr True)"
    using send_outcome [of ?dry "JObj []" "Inl Timeout" initial_world, THEN conjunct1]
    by (simp add: initial_world_def)
  have 2: "send ?none (JObj []) (Inl Timeout) initial_world
     = (\<lparr>serve_data = Map.empty, trace = [Printed (JObj [])]\<rparr>, Inr True)"
    using send_outcome [of ?none "JObj []" "Inl Timeout" initial_world, THEN conjunct1]
    by (simp add: initial_world_def webhook_url_def)
  have 3: "send ?push (JObj []) (Inr (Response 200 None)) initial_world
     = (\<lparr>serve_data = Map.empty, trace = [Posted ''https://hook'' (JObj [])]\<rparr>, Inr True)"
    using send_outcome [of ?push "JObj []" "Inr (Response 200 None)" initial_world,
        THEN conjunct2, THEN conjunct1]
    by (simp add: initial_world_def webhook_url_def)
  have 4: "send ?push (JObj []) (Inr (Response 500 None)) initial_world
     = (\<lparr>serve_data = Map.empty, trace = [Posted ''https://hook'' (JObj [])]\<rparr>, Inr False)"
    using send_outcome [of ?push "JObj []" "Inr (Response 500 None)" initial_world,
        THEN conjunct2, THEN conjunct1]
    by (simp add: initial_world_def webhook_url_def)
  have 5: "send ?push (JObj []) (Inl Timeout) initial_world
     = (\<lparr>serve_data = Map.empty, trace = [Posted ''https://hook'' (JObj [])]\<rparr>, Inr False)"
    using send_outcome [of ?push "JObj []" "Inl Timeout" initial_world,
        THEN conjunct2, THEN conjunct1]
    by (simp add: initial_world_def webhook_url_def)
  from 1 2 3 4 5 show ?thesis by blast
qed

section \<open>Properties of the collector\<close>

lemma map_exn_Inr:
  "map_exn f xs = Inr ys \<Longrightarrow> length ys = length xs \<and> (\<forall>i<length xs. f (xs ! i) = Inr (ys ! i))"
proof (induction xs arbitrary: ys)
  case Nil
  then show ?case by simp
next
  case (Cons x xs)
  from Cons.prems obtain y ys' where y: "f x = Inr y" and r: "map_exn f xs = Inr ys'"
    and ys: "ys = y # ys'"
    by (auto simp: bnd_Inr_iff)
  from Cons.IH [OF r] have ih: "length ys' = length xs" "\<forall>i<length xs. f (xs ! i) = Inr (ys' ! i)"
    by simp_all
  show ?case using y ih ys by (auto simp: nth_Cons split: nat.splits)
qed

lemma transform_loadpoint_item_Inr:
  "transform_loadpoint_item u x = Inr y \<Longrightarrow> \<exists>lp. x = JObj lp \<and> transform_loadpoint u lp = Inr y"
  by (cases x) auto

lemma transform_loadpoint_status:
  "transform_loadpoint u lp = Inr y \<Longrightarrow>
   \<exists>d. y = JObj d \<and> map_of d ''status'' = Some (JStr (derive_status lp))"
  unfolding transform_loadpoint_def Let_def bnd_Inr_iff by auto

lemma collect_result:
  assumes "collect cfg got clk = Inr payload"
  shows "\<exists>st sliced outs n mv.
      api_request got = Inr (JObj st)
    \<and> py_slice (dict_get st ''loadpoints'' (JArr [])) (max_loadpoints cfg) = Inr sliced
    \<and> map_exn (transform_loadpoint_item (power_unit cfg)) sliced = Inr outs
    \<and> py_len (dict_get st ''loadpoints'' (JArr [])) = Inr n
    \<and> payload = JObj [(''merge_variables'', JObj mv)]
    \<and> map_of mv ''loadpoints'' = Some (JArr outs)
    \<and> map_of mv ''loadpoint_count'' = Some (JInt n)"
proof -
  from assms obtain state where a: "api_request got = Inr state"
    and rest: "(case state of
       JObj st \<Rightarrow>
         (let loadpoints = dict_get st ''loadpoints'' (JArr [])
          in bnd (transform_energy (power_unit cfg) st) (\<lambda>energy.
             bnd (transform_battery (power_unit cfg) st) (\<lambda>battery.
             bnd (py_slice loadpoints (max_loadpoints cfg)) (\<lambda>sliced.
             bnd (map_exn (transform_loadpoint_item (power_unit cfg)) sliced) (\<lambda>summaries.
             bnd (py_len loadpoints) (\<lambda>loadpoint_count.
             bnd (transform_statistics st) (\<lambda>statistics.
             Inr (JObj
               [(''merge_variables'', JObj
                  [(''site_title'', dict_get st ''siteTitle'' (JStr ''EVCC'')),
                   (''last_updated'', JStr (utc_iso clk)),
                   (''last_updated_local'', JStr (local_time clk)),
                   (''timezone'', JStr (get_timezone_abbrev cfg clk)),
                   (''currency'', dict_get st ''currency'' (JStr ''EUR'')),
                   (''energy'', energy),
                   (''battery'', battery),
                   (''loadpoints'', JArr summaries),
                   (''loadpoint_count'', JInt loadpoint_count),
                   (''statistics'', statistics)])]))))))))
     | _ \<Rightarrow> Inl AttributeError) = Inr payload"
    unfolding collect_def Let_def bnd_Inr_iff by (auto split: if_splits simp: bnd_Inr_iff)
  from rest obtain st where st: "state = JObj st" by (cases state) simp_all
  from rest [unfolded st] obtain energy battery sliced outs n statistics where
    s: "py_slice (dict_get st ''loadpoints'' (JArr [])) (max_loadpoints cfg) = Inr sliced" and
    m: "map_exn (transform_loadpoint_item (power_unit cfg)) sliced = Inr outs" and
    l: "py_len (dict_get st ''loadpoints'' (JArr [])) = Inr n" and
    p: "payload = JObj
               [(''merge_variables'', JObj
                  [(''site_title'', dict_get st ''siteTitle'' (JStr ''EVCC'')),
                   (''last_updated'', JStr (utc_iso clk)),
                   (''last_updated_local'', JStr (local_time clk)),
                   (''timezone'', JStr (get_timezone_abbrev cfg clk)),
                   (''currency'', dict_get st ''currency'' (JStr ''EUR'')),
                   (''energy'', energy),
                   (''battery'', battery),
                   (''loadpoints'', JArr outs),
                   (''loadpoint_count'', JInt n),
                   (''statistics'', statistics)])]"
    by (auto simp: Let_def bnd_Inr_iff)
  have "map_of [(''site_title'', dict_get st ''siteTitle'' (JStr ''EVCC'')),
                   (''last_updated'', JStr (utc_iso clk)),
                   (''last_updated_local'', JStr (local_time clk)),
                   (''timezone'', JStr (get_timezone_abbrev cfg clk)),
                   (''currency'', dict_get st ''currency'' (JStr ''EUR'')),
                   (''energy'', energy),
                   (''battery'', battery),
                   (''loadpoints'', JArr outs),
                   (''loadpoint_count'', JInt n),
                   (''statistics'', statistics)] ''loadpoints'' = Some (JArr outs)" by simp
  moreover have "map_of [(''site_title'', dict_get st ''siteTitle'' (JStr ''EVCC'')),
                   (''last_updated'', JStr (utc_iso clk)),
                   (''last_updated_local'', JStr (local_time clk)),
                   (''timezone'', JStr (get_timezone_abbrev cfg clk)),
                   (''currency'', dict_get st ''currency'' (JStr ''EUR'')),
                   (''energy'', energy),
                   (''battery'', battery),
                   (''loadpoints'', JArr outs),
                   (''loadpoint_count'', JInt n),
                   (''statistics'', statistics)] ''loadpoint_count'' = Some (JInt n)" by simp
  ultimately show ?thesis using a st s m l p by blast
qed

text \<open>
  C6 (as amended). When \<^const>\<open>collect\<close> returns, the state's "loadpoints" is a list of
  length \<open>n\<close> and the configured maximum \<open>m\<close> is not negative, the snapshot holds
  \<open>min n m\<close> loadpoint summaries, the \<open>i\<close>-th one being the summary of the \<open>i\<close>-th
  loadpoint of the state (with its status derived from that loadpoint), and
  "loadpoint_count" is \<open>n\<close>.
\<close>

theorem collect_loadpoints:
  assumes run: "collect cfg got clk = Inr payload"
    and st: "api_request got = Inr (JObj st)"
    and lps: "dict_get st ''loadpoints'' (JArr []) = JArr lps"
    and m: "0 \<le> max_loadpoints cfg"
  shows "\<exists>outs. snapshot_field (Inr payload) ''loadpoints'' = Some (JArr outs)
     \<and> snapshot_field (Inr payload) ''loadpoint_count'' = Some (JInt (int (length lps)))
     \<and> length outs = min (length lps) (nat (max_loadpoints cfg))
     \<and> (\<forall>i<length outs. \<exists>lp. lps ! i = JObj lp
           \<and> transform_loadpoint (power_unit cfg) lp = Inr (outs ! i)
           \<and> loadpoint_field (outs ! i) ''status'' = Some (JStr (derive_status lp)))"
proof -
  from collect_result [OF run] st obtain sliced outs n mv where
    s: "py_slice (dict_get st ''loadpoints'' (JArr [])) (max_loadpoints cfg) = Inr sliced" and
    t: "map_exn (transform_loadpoint_item (power_unit cfg)) sliced = Inr outs" and
    l: "py_len (dict_get st ''loadpoints'' (JArr [])) = Inr n" and
    p: "payload = JObj [(''merge_variables'', JObj mv)]" and
    f1: "map_of mv ''loadpoints'' = Some (JArr outs)" and
    f2: "map_of mv ''loadpoint_count'' = Some (JInt n)"
    by auto
  from s lps m have sliced: "sliced = take (nat (max_loadpoints cfg)) lps"
    by (simp add: py_slice_to_def)
  from l lps have n: "n = int (length lps)" by simp
  from map_exn_Inr [OF t] have len: "length outs = length sliced"
    and each: "\<forall>i<length sliced. transform_loadpoint_item (power_unit cfg) (sliced ! i) = Inr (outs ! i)"
    by simp_all
  have a: "snapshot_field (Inr payload) ''loadpoints'' = Some (JArr outs)"
    by (simp add: snapshot_field_def p f1)
  have b: "snapshot_field (Inr payload) ''loadpoint_count'' = Some (JInt (int (length lps)))"
    by (simp add: snapshot_field_def p f2 n)
  have c: "length outs = min (length lps) (nat (max_loadpoints cfg))"
    using len sliced by simp
  have d: "\<forall>i<length outs. \<exists>lp. lps ! i = JObj lp
           \<and> transform_loadpoint (power_unit cfg) lp = Inr (outs ! i)
           \<and> loadpoint_field (outs ! i) ''status'' = Some (JStr (derive_status lp))"
  proof (intro allI impI)
    fix i
    assume i: "i < length outs"
    with len have i': "i < length sliced" by simp
    with sliced have nth: "sliced ! i = lps ! i" by simp
    from each i' have "transform_loadpoint_item (power_unit cfg) (sliced ! i) = Inr (outs ! i)" by simp
    from transform_loadpoint_item_Inr [OF this] nth obtain lp where
      lp: "lps ! i = JObj lp" "transform_loadpoint (power_unit cfg) lp = Inr (outs ! i)" by auto
    from transform_loadpoint_status [OF lp(2)]
    have "loadpoint_field (outs ! i) ''status'' = Some (JStr (derive_status lp))"
      by (auto simp: loadpoint_field_def)
    with lp show "\<exists>lp. lps ! i = JObj lp
           \<and> transform_loadpoint (power_unit cfg) lp = Inr (outs ! i)
           \<and> loadpoint_field (outs ! i) ''status'' = Some (JStr (derive_status lp))"
      by blast
  qed
  from a b c d show ?thesis by blast
qed

theorem collect_loadpoints_witness:
  "snapshot_field
     (collect \<lparr>url = ''http://evcc:7070'', webhook = None, timezone = [],
          max_loadpoints = 4, power_unit = ''auto'', verbose = False, dry_run = False\<rparr>
        (Inr (Response 200 (Some (JObj [(''loadpoints'', JArr [JObj [(''mode'', JStr ''pv''),
            (''charging'', JBool False), (''connected'', JBool True), (''enabled'', JBool True)]])]))))
        \<lparr>utc_iso = ''2024-01-01T00:00:00Z'', local_time = ''2024-01-01 00:00'', zone = Inr ''UTC''\<rparr>)
     ''loadpoint_count'' = Some (JInt 1)
   \<and> (\<exists>out. snapshot_field
     (collect \<lparr>url = ''http://evcc:7070'', webhook = None, timezone = [],
          max_loadpoints = 4, power_unit = ''auto'', verbose = False, dry_run = False\<rparr>
        (Inr (Response 200 (Some (JObj [(''loadpoints'', JArr [JObj [(''mode'', JStr ''pv''),
            (''charging'', JBool False), (''connected'', JBool True), (''enabled'', JBool True)]])]))))
        \<lparr>utc_iso = ''2024-01-01T00:00:00Z'', local_time = ''2024-01-01 00:00'', zone = Inr ''UTC''\<rparr>)
     ''loadpoints'' = Some (JArr [out])
      \<and> loadpoint_field out ''status'' = Some (JStr ''Waiting for solar''))"
proof -
  let ?cfg = "\<lparr>url = ''http://evcc:7070'', webhook = None, timezone = [],
          max_loadpoints = 4, power_unit = ''auto'', verbose = False, dry_run = False\<rparr>"
  let ?lp = "[(''mode'', JStr ''pv''), (''charging'', JBool False), (''connected'', JBool True),
              (''enabled'', JBool True)]"
  let ?st = "[(''loadpoints'', JArr [JObj ?lp])]"
  let ?got = "Inr (Response 200 (Some (JObj ?st)))"
  let ?clk = "\<lparr>utc_iso = ''2024-01-01T00:00:00Z'', local_time = ''2024-01-01 00:00'', zone = Inr ''UTC''\<rparr>"
  have "case collect ?cfg ?got ?clk of Inl e \<Rightarrow> False | Inr p \<Rightarrow> True" by code_simp
  then obtain payload where run: "collect ?cfg ?got ?clk = Inr payload"
    by (cases "collect ?cfg ?got ?clk") simp_all
  have st: "api_request ?got = Inr (JObj ?st)" by (simp add: api_request_def dict_get_def)
  have lps: "dict_get ?st ''loadpoints'' (JArr []) = JArr [JObj ?lp]" by (simp add: dict_get_def)
  have m: "0 \<le> max_loadpoints ?cfg" by simp
  from collect_loadpoints [OF run st lps m] obtain outs where
    a: "snapshot_field (Inr payload) ''loadpoints'' = Some (JArr outs)" and
    b: "snapshot_field (Inr payload) ''loadpoint_count'' = Some (JInt 1)" and
    c: "length outs = 1" and
    d: "\<forall>i<length outs. \<exists>lp. [JObj ?lp] ! i = JObj lp
           \<and> transform_loadpoint (power_unit ?cfg) lp = Inr (outs ! i)
           \<and> loadpoint_field (outs ! i) ''status'' = Some (JStr (derive_status lp))"
    by auto
  from c obtain out where outs: "outs = [out]" by (cases outs) simp_all
  have ds: "derive_status ?lp = ''Waiting for solar''" by (simp add: derive_status_def dict_get_def)
  from d outs have "loadpoint_field out ''status'' = Some (JStr (derive_status ?lp))" by simp
  with ds have e: "loadpoint_field out ''status'' = Some (JStr ''Waiting for solar'')" by simp
  from a b e outs show ?thesis unfolding run by blast
qed

text \<open>
  C6 as the specification words it speaks of every configured maximum. With two
  loadpoints and the maximum -1 the slice \<^verbatim>\<open>loadpoints[:-1]\<close> keeps one loadpoint, so
  the snapshot holds one summary, which is not \<open>min 2 (-1)\<close> summaries.
\<close>

theorem collect_negative_maximum_counterexample:
  "summaries_returned
     (collect \<lparr>url = ''http://evcc:7070'', webhook = None, timezone = [],
          max_loadpoints = - 1, power_unit = ''auto'', verbose = False, dry_run = False\<rparr>
        (Inr (Response 200 (Some (JObj [(''loadpoints'', JArr [JObj [], JObj []])]))))
        \<lparr>utc_iso = ''2024-01-01T00:00:00Z'', local_time = ''2024-01-01 00:00'', zone = Inr ''UTC''\<rparr>)
     = Some 1
   \<and> snapshot_field
     (collect \<lparr>url = ''http://evcc:7070'', webhook = None, timezone = [],
          max_loadpoints = - 1, power_unit = ''auto'', verbose = False, dry_run = False\<rparr>
        (Inr (Response 200 (Some (JObj [(''loadpoints'', JArr [JObj [], JObj []])]))))
        \<lparr>utc_iso = ''2024-01-01T00:00:00Z'', local_time = ''2024-01-01 00:00'', zone = Inr ''UTC''\<rparr>)
     ''loadpoint_count'' = Some (JInt 2)
   \<and> min (2::int) (- 1) \<noteq> 1"
  by code_simp

section \<open>Properties of a collection cycle\<close>

lemma collect_shape:
  "collect cfg got clk = Inr payload \<Longrightarrow> \<exists>mv. payload = JObj [(''merge_variables'', JObj mv)]"
  using collect_result by blast

lemma store_payload_snapshot:
  "store_payload (JObj [(''merge_variables'', JObj mv)]) w
   = Inr (w\<lparr>serve_data := (serve_data w)(''evcc'' \<mapsto> JObj mv), trace := trace w @ [Stored (JObj mv)]\<rparr>)"
  by (simp add: store_payload_def dict_get_def)

lemma send_post:
  assumes "\<not> dry_run cfg" "webhook_url cfg \<noteq> []"
  shows "\<exists>r. send cfg p posted w = (w\<lparr>trace := trace w @ [Posted (webhook_url cfg) p]\<rparr>, r)
     \<and> (r = Inr True \<longleftrightarrow> (\<exists>code body. posted = Inr (Response code body) \<and> \<not> (400 \<le> code \<and> code < 600)))
     \<and> (r \<noteq> Inr True \<longrightarrow> r = Inr False \<or> (\<exists>e. r = Inl e))"
proof (cases posted)
  case (Inl e)
  then show ?thesis using assms by (simp add: send_def Let_def)
next
  case (Inr resp)
  then obtain code body where r: "posted = Inr (Response code body)" by (cases resp) simp
  show ?thesis using assms r by (simp add: send_def Let_def)
qed

lemma run_collection_failed:
  "collect cfg got clk = Inl e \<Longrightarrow> run_collection cfg got clk posted w = (w, False)"
  by (simp add: run_collection_def)

lemma run_collection_print:
  assumes "collect cfg got clk = Inr (JObj [(''merge_variables'', JObj mv)])"
    and "dry_run cfg \<or> webhook_url cfg = []"
  shows "run_collection cfg got clk posted w
     = (w\<lparr>serve_data := (serve_data w)(''evcc'' \<mapsto> JObj mv),
          trace := trace w @ [Stored (JObj mv), Printed (JObj [(''merge_variables'', JObj mv)])]\<rparr>, True)"
  using assms by (simp add: run_collection_def store_payload_snapshot send_print)

lemma run_collection_post:
  assumes c: "collect cfg got clk = Inr (JObj [(''merge_variables'', JObj mv)])"
    and nd: "\<not> dry_run cfg" and wh: "webhook_url cfg \<noteq> []"
  shows "\<exists>ok. run_collection cfg got clk posted w
     = (w\<lparr>serve_data := (serve_data w)(''evcc'' \<mapsto> JObj mv),
          trace := trace w @ [Stored (JObj mv),
                              Posted (webhook_url cfg) (JObj [(''merge_variables'', JObj mv)])]\<rparr>, ok)
     \<and> (ok \<longleftrightarrow> (\<exists>code body. posted = Inr (Response code body) \<and> \<not> (400 \<le> code \<and> code < 600)))"
proof -
  let ?p = "JObj [(''merge_variables'', JObj mv)]"
  let ?w1 = "w\<lparr>serve_data := (serve_data w)(''evcc'' \<mapsto> JObj mv), trace := trace w @ [Stored (JObj mv)]\<rparr>"
  from send_post [OF nd wh, of ?p posted ?w1] obtain r where
    s: "send cfg ?p posted ?w1 = (?w1\<lparr>trace := trace ?w1 @ [Posted (webhook_url cfg) ?p]\<rparr>, r)" and
    t: "r = Inr True \<longleftrightarrow> (\<exists>code body. posted = Inr (Response code body) \<and> \<not> (400 \<le> code \<and> code < 600))" and
    f: "r \<noteq> Inr True \<longrightarrow> r = Inr False \<or> (\<exists>e. r = Inl e)"
    by blast
  have rc: "run_collection cfg got clk posted w
     = (w\<lparr>serve_data := (serve_data w)(''evcc'' \<mapsto> JObj mv),
          trace := trace w @ [Stored (JObj mv),
                              Posted (webhook_url cfg) (JObj [(''merge_variables'', JObj mv)])]\<rparr>,
        r = Inr True)"
    using c s by (cases r) (auto simp: run_collection_def store_payload_snapshot)
  show ?thesis
    by (rule exI [of _ "r = Inr True"]) (simp only: rc t simp_thms)
qed

text \<open>
  C7. When the collection of a cycle succeeds, \<^const>\<open>run_collection\<close> first stores the
  snapshot into the slot "evcc" of the cache and only then prints or posts the
  payload: the trace grows by the store followed by the delivery. So after the cycle
  the slot holds that cycle's snapshot whatever the delivery does, and when a POST
  is attempted the outcome of the cycle is true exactly when the POST returns a
  status outside 400 to 599; a POST that fails makes it false. When the collection
  fails the cache and the trace stay as they were and the outcome is false.
\<close>

theorem run_collection_cache:
  "(\<forall>payload. collect cfg got clk = Inr payload \<longrightarrow>
      (\<exists>mv. payload = JObj [(''merge_variables'', JObj mv)]
         \<and> (dry_run cfg \<or> webhook_url cfg = [] \<longrightarrow>
              run_collection cfg got clk posted w
              = (w\<lparr>serve_data := (serve_data w)(''evcc'' \<mapsto> JObj mv),
                   trace := trace w @ [Stored (JObj mv), Printed payload]\<rparr>, True))
         \<and> (\<not> dry_run cfg \<and> webhook_url cfg \<noteq> [] \<longrightarrow>
              (\<exists>ok. run_collection cfg got clk posted w
                 = (w\<lparr>serve_data := (serve_data w)(''evcc'' \<mapsto> JObj mv),
                      trace := trace w @ [Stored (JObj mv), Posted (webhook_url cfg) payload]\<rparr>, ok)
                 \<and> (ok \<longleftrightarrow> (\<exists>code body. posted = Inr (Response code body)
                                   \<and> \<not> (400 \<le> code \<and> code < 600)))))))
   \<and> (\<forall>e. collect cfg got clk = Inl e \<longrightarrow> run_collection cfg got clk posted w = (w, False))"
proof (intro conjI allI impI)
  fix payload
  assume c: "collect cfg got clk = Inr payload"
  from collect_shape [OF c] obtain mv where p: "payload = JObj [(''merge_variables'', JObj mv)]"
    by blast
  have a: "dry_run cfg \<or> webhook_url cfg = [] \<longrightarrow>
              run_collection cfg got clk posted w
              = (w\<lparr>serve_data := (serve_data w)(''evcc'' \<mapsto> JObj mv),
                   trace := trace w @ [Stored (JObj mv), Printed payload]\<rparr>, True)"
    using run_collection_print [of cfg got clk mv posted w] c p by simp
  have b: "\<not> dry_run cfg \<and> webhook_url cfg \<noteq> [] \<longrightarrow>
              (\<exists>ok. run_collection cfg got clk posted w
                 = (w\<lparr>serve_data := (serve_data w)(''evcc'' \<mapsto> JObj mv),
                      trace := trace w @ [Stored (JObj mv), Posted (webhook_url cfg) payload]\<rparr>, ok)
                 \<and> (ok \<longleftrightarrow> (\<exists>code body. posted = Inr (Response code body)
                                   \<and> \<not> (400 \<le> code \<and> code < 600))))"
    using run_collection_post [of cfg got clk mv posted w] c p by simp
  show "\<exists>mv. payload = JObj [(''merge_variables'', JObj mv)]
         \<and> (dry_run cfg \<or> webhook_url cfg = [] \<longrightarrow>
              run_collection cfg got clk posted w
              = (w\<lparr>serve_data := (serve_data w)(''evcc'' \<mapsto> JObj mv),
                   trace := trace w @ [Stored (JObj mv), Printed payload]\<rparr>, True))
         \<and> (\<not> dry_run cfg \<and> webhook_url cfg \<noteq> [] \<longrightarrow>
              (\<exists>ok. run_collection cfg got clk posted w
                 = (w\<lparr>serve_data := (serve_data w)(''evcc'' \<mapsto> JObj mv),
                      trace := trace w @ [Stored (JObj mv), Posted (webhook_url cfg) payload]\<rparr>, ok)
                 \<and> (ok \<longleftrightarrow> (\<exists>code body. posted = Inr (Response code body)
                                   \<and> \<not> (400 \<le> code \<and> code < 600)))))"
    using p a b by blast
next
  fix e
  assume "collect cfg got clk = Inl e"
  then show "run_collection cfg got clk posted w = (w, False)" by (rule run_collection_failed)
qed

theorem run_collection_cache_witness:
  "(\<exists>mv.
      collect \<lparr>url = ''http://evcc:7070'', webhook = Some ''https://hook'', timezone = [],
          max_loadpoints = 4, power_unit = ''auto'', verbose = False, dry_run = False\<rparr>
        (Inr (Response 200 (Some (JObj [(''loadpoints'', JArr [JObj [(''mode'', JStr ''pv''),
            (''charging'', JBool False), (''connected'', JBool True), (''enabled'', JBool True)]])]))))
        \<lparr>utc_iso = ''2024-01-01T00:00:00Z'', local_time = ''2024-01-01 00:00'', zone = Inr ''UTC''\<rparr>
      = Inr (JObj [(''merge_variables'', JObj mv)])
    \<and> run_collection \<lparr>url = ''http://evcc:7070'', webhook = Some ''https://hook'', timezone = [],
          max_loadpoints = 4, power_unit = ''auto'', verbose = False, dry_run = False\<rparr>
        (Inr (Response 200 (Some (JObj [(''loadpoints'', JArr [JObj [(''mode'', JStr ''pv''),
            (''charging'', JBool False), (''connected'', JBool True), (''enabled'', JBool True)]])]))))
        \<lparr>utc_iso = ''2024-01-01T00:00:00Z'', local_time = ''2024-01-01 00:00'', zone = Inr ''UTC''\<rparr>
        (Inl ConnectionError) initial_world
      = (\<lparr>serve_data = [''evcc'' \<mapsto> JObj mv],
          trace = [Stored (JObj mv), Posted ''https://hook'' (JObj [(''merge_variables'', JObj mv)])]\<rparr>,
         False))
   \<and> run_collection \<lparr>url = ''http://evcc:7070'', webhook = Some ''https://hook'', timezone = [],
          max_loadpoints = 4, power_unit = ''auto'', verbose = False, dry_run = False\<rparr>
        (Inl Timeout)
        \<lparr>utc_iso = ''2024-01-01T00:00:00Z'', local_time = ''2024-01-01 00:00'', zone = Inr ''UTC''\<rparr>
        (Inl ConnectionError) initial_world
      = (initial_world, False)"
proof -
  let ?cfg = "\<lparr>url = ''http://evcc:7070'', webhook = Some ''https://hook'', timezone = [],
          max_loadpoints = 4, power_unit = ''auto'', verbose = False, dry_run = False\<rparr>"
  let ?got = "Inr (Response 200 (Some (JObj [(''loadpoints'', JArr [JObj [(''mode'', JStr ''pv''),
            (''charging'', JBool False), (''connected'', JBool True), (''enabled'', JBool True)]])])))"
  let ?clk = "\<lparr>utc_iso = ''2024-01-01T00:00:00Z'', local_time = ''2024-01-01 00:00'', zone = Inr ''UTC''\<rparr>"
  have "case collect ?cfg ?got ?clk of Inl e \<Rightarrow> False | Inr p \<Rightarrow> True" by code_simp
  then obtain payload where run: "collect ?cfg ?got ?clk = Inr payload"
    by (cases "collect ?cfg ?got ?clk") simp_all
  have hook: "\<not> dry_run ?cfg \<and> webhook_url ?cfg \<noteq> []" by (simp add: webhook_url_def)
  have url: "webhook_url ?cfg = ''https://hook''" by (simp add: webhook_url_def)
  from run_collection_cache [of ?cfg ?got ?clk "Inl ConnectionError" initial_world,
      THEN conjunct1, rule_format, OF run] hook
  obtain mv ok where p: "payload = JObj [(''merge_variables'', JObj mv)]"
    and r: "run_collection ?cfg ?got ?clk (Inl ConnectionError) initial_world
       = (initial_world\<lparr>serve_data := (serve_data initial_world)(''evcc'' \<mapsto> JObj mv),
            trace := trace initial_world @ [Stored (JObj mv), Posted (webhook_url ?cfg) payload]\<rparr>, ok)"
    and ok: "ok \<longleftrightarrow> (\<exists>code body. (Inl ConnectionError :: exn + response) = Inr (Response code body)
                                   \<and> \<not> (400 \<le> code \<and> code < 600))"
    by blast
  from ok have nok: "\<not> ok" by simp
  have a: "run_collection ?cfg ?got ?clk (Inl ConnectionError) initial_world
      = (\<lparr>serve_data = [''evcc'' \<mapsto> JObj mv],
          trace = [Stored (JObj mv), Posted ''https://hook'' (JObj [(''merge_variables'', JObj mv)])]\<rparr>,
         False)"
    using r nok p url by (simp add: initial_world_def)
  have f: "collect ?cfg (Inl Timeout) ?clk = Inl Timeout" by (simp add: collect_def api_request_def)
  have b: "run_collection ?cfg (Inl Timeout) ?clk (Inl ConnectionError) initial_world = (initial_world, False)"
    using run_collection_cache [of ?cfg "Inl Timeout" ?clk "Inl ConnectionError" initial_world,
      THEN conjunct2, rule_format, OF f] .
  from run p a b show ?thesis by blast
qed

section \<open>Properties of the cache and the HTTP handler\<close>

lemma rstrip_slash_root [simp]: "rstrip_slash ''/'' = []" "rstrip_slash [] = []"
  by (simp_all add: rstrip_slash_def)

lemma rstrip_slash_data [simp]: "rstrip_slash ''/data/evcc'' = ''/data/evcc''"
  by (simp add: rstrip_slash_def)

lemma do_GET_root:
  "rstrip_slash p = [] \<Longrightarrow>
   do_GET w p = (200, Some (JObj [(''endpoints'', JObj [(''evcc'', JStr ''/data/evcc'')])]))"
  by (simp add: do_GET_def)

lemma do_GET_data_empty:
  "serve_data w ''evcc'' = None \<Longrightarrow>
   do_GET w ''/data/evcc'' = (404, Some (JObj [(''error'', JStr ''No data collected yet'')]))"
  by (simp add: do_GET_def)

lemma do_GET_data_stored:
  "serve_data w ''evcc'' = Some data \<Longrightarrow> data \<noteq> JNull \<Longrightarrow>
   do_GET w ''/data/evcc'' = (200, Some data)"
  by (simp add: do_GET_def)

lemma store_payload_result:
  assumes "store_payload p w = Inr w'"
  shows "\<exists>d. p = JObj d
     \<and> w' = w\<lparr>serve_data := (serve_data w)(''evcc'' \<mapsto> dict_get d ''merge_variables'' p),
              trace := trace w @ [Stored (dict_get d ''merge_variables'' p)]\<rparr>"
  using assms by (cases p) (auto simp: store_payload_def)

lemma store_payload_total: "\<exists>w'. store_payload (JObj d) w = Inr w'"
  by (simp add: store_payload_def)

text \<open>
  C10. For every state of the cache, also before anything has been stored, a GET on
  the root path answers 200 with the constant body
  \<^verbatim>\<open>{"endpoints": {"evcc": "/data/evcc"}}\<close>. The listing does not depend on the cache:
  in the initial state it names the path "/data/evcc", and a GET on that path
  answers 404.
\<close>

theorem root_listing_constant:
  "do_GET w ''/'' = (200, Some (JObj [(''endpoints'', JObj [(''evcc'', JStr ''/data/evcc'')])]))
   \<and> do_GET w [] = (200, Some (JObj [(''endpoints'', JObj [(''evcc'', JStr ''/data/evcc'')])]))
   \<and> do_GET initial_world ''/'' = (200, Some (JObj [(''endpoints'', JObj [(''evcc'', JStr ''/data/evcc'')])]))
   \<and> do_GET initial_world ''/data/evcc'' = (404, Some (JObj [(''error'', JStr ''No data collected yet'')]))"
  by (simp add: do_GET_root do_GET_data_empty initial_world_def)

text \<open>
  C9. A GET on "/data/evcc" answers 404 with the body
  \<^verbatim>\<open>{"error": "No data collected yet"}\<close> whenever the slot "evcc" of the cache is empty.
  After \<^const>\<open>store_payload\<close> the slot holds the stored document (the content of
  "merge_variables" when the payload has that key, else the payload), and the GET
  answers 200 with exactly that document. A second store leaves the cache as the
  first one found it except for the slot, which holds the second document only.
  A stored \<^verbatim>\<open>None\<close> would read as an empty slot; the payloads of \<^const>\<open>collect\<close>, the
  only ones the program stores, always carry a dictionary, and the GET returns it.
\<close>

theorem cache_slot_get:
  "(serve_data w ''evcc'' = None \<longrightarrow>
      do_GET w ''/data/evcc'' = (404, Some (JObj [(''error'', JStr ''No data collected yet'')])))
   \<and> (\<forall>w1. store_payload p w = Inr w1 \<longrightarrow>
        (\<exists>d. p = JObj d
           \<and> serve_data w1 ''evcc'' = Some (dict_get d ''merge_variables'' p)
           \<and> (dict_get d ''merge_variables'' p \<noteq> JNull \<longrightarrow>
                do_GET w1 ''/data/evcc'' = (200, Some (dict_get d ''merge_variables'' p)))))
   \<and> (\<forall>w1 w2. store_payload p w = Inr w1 \<and> store_payload p2 w1 = Inr w2 \<longrightarrow>
        (\<exists>d2. p2 = JObj d2
           \<and> serve_data w2 = (serve_data w)(''evcc'' \<mapsto> dict_get d2 ''merge_variables'' p2)
           \<and> (dict_get d2 ''merge_variables'' p2 \<noteq> JNull \<longrightarrow>
                do_GET w2 ''/data/evcc'' = (200, Some (dict_get d2 ''merge_variables'' p2)))))
   \<and> (\<forall>cfg got clk. collect cfg got clk = Inr p \<longrightarrow>
        (\<exists>w1 mv. p = JObj [(''merge_variables'', JObj mv)] \<and> store_payload p w = Inr w1
           \<and> do_GET w1 ''/data/evcc'' = (200, Some (JObj mv))))"
proof (intro conjI allI impI)
  assume "serve_data w ''evcc'' = None"
  then show "do_GET w ''/data/evcc'' = (404, Some (JObj [(''error'', JStr ''No data collected yet'')]))"
    by (rule do_GET_data_empty)
next
  fix w1
  assume "store_payload p w = Inr w1"
  from store_payload_result [OF this] obtain d where d: "p = JObj d"
    and w1: "w1 = w\<lparr>serve_data := (serve_data w)(''evcc'' \<mapsto> dict_get d ''merge_variables'' p),
              trace := trace w @ [Stored (dict_get d ''merge_variables'' p)]\<rparr>"
    by blast
  have s: "serve_data w1 ''evcc'' = Some (dict_get d ''merge_variables'' p)" by (simp add: w1)
  show "\<exists>d. p = JObj d
           \<and> serve_data w1 ''evcc'' = Some (dict_get d ''merge_variables'' p)
           \<and> (dict_get d ''merge_variables'' p \<noteq> JNull \<longrightarrow>
                do_GET w1 ''/data/evcc'' = (200, Some (dict_get d ''merge_variables'' p)))"
    using d s do_GET_data_stored [OF s] by blast
next
  fix w1 w2
  assume h: "store_payload p w = Inr w1 \<and> store_payload p2 w1 = Inr w2"
  from store_payload_result [of p w w1] h obtain d where
    w1: "w1 = w\<lparr>serve_data := (serve_data w)(''evcc'' \<mapsto> dict_get d ''merge_variables'' p),
              trace := trace w @ [Stored (dict_get d ''merge_variables'' p)]\<rparr>"
    by blast
  from store_payload_result [of p2 w1 w2] h obtain d2 where d2: "p2 = JObj d2"
    and w2: "w2 = w1\<lparr>serve_data := (serve_data w1)(''evcc'' \<mapsto> dict_get d2 ''merge_variables'' p2),
              trace := trace w1 @ [Stored (dict_get d2 ''merge_variables'' p2)]\<rparr>"
    by blast
  have m: "serve_data w2 = (serve_data w)(''evcc'' \<mapsto> dict_get d2 ''merge_variables'' p2)"
    by (simp add: w1 w2)
  then have s: "serve_data w2 ''evcc'' = Some (dict_get d2 ''merge_variables'' p2)" by simp
  show "\<exists>d2. p2 = JObj d2
           \<and> serve_data w2 = (serve_data w)(''evcc'' \<mapsto> dict_get d2 ''merge_variables'' p2)
           \<and> (dict_get d2 ''merge_variables'' p2 \<noteq> JNull \<longrightarrow>
                do_GET w2 ''/data/evcc'' = (200, Some (dict_get d2 ''merge_variables'' p2)))"
    using d2 m do_GET_data_stored [OF s] by blast
next
  fix cfg got clk
  assume "collect cfg got clk = Inr p"
  from collect_shape [OF this] obtain mv where p: "p = JObj [(''merge_variables'', JObj mv)]"
    by blast
  let ?w1 = "w\<lparr>serve_data := (serve_data w)(''evcc'' \<mapsto> JObj mv), trace := trace w @ [Stored (JObj mv)]\<rparr>"
  have s: "store_payload p w = Inr ?w1" unfolding p by (rule store_payload_snapshot)
  have "serve_data ?w1 ''evcc'' = Some (JObj mv)" by simp
  from do_GET_data_stored [OF this] have g: "do_GET ?w1 ''/data/evcc'' = (200, Some (JObj mv))"
    by simp
  show "\<exists>w1 mv. p = JObj [(''merge_variables'', JObj mv)] \<and> store_payload p w = Inr w1
           \<and> do_GET w1 ''/data/evcc'' = (200, Some (JObj mv))"
    using p s g by blast
qed

theorem cache_slot_get_witness:
  "do_GET initial_world ''/data/evcc'' = (404, Some (JObj [(''error'', JStr ''No data collected yet'')]))
   \<and> (\<exists>w1 w2.
        store_payload (JObj [(''merge_variables'', JObj [(''site_title'', JStr ''A''), (''currency'', JStr ''EUR'')])])
          initial_world = Inr w1
      \<and> do_GET w1 ''/data/evcc'' = (200, Some (JObj [(''site_title'', JStr ''A''), (''currency'', JStr ''EUR'')]))
      \<and> store_payload (JObj [(''merge_variables'', JObj [(''site_title'', JStr ''B'')])]) w1 = Inr w2
      \<and> do_GET w2 ''/data/evcc'' = (200, Some (JObj [(''site_title'', JStr ''B'')])))"
proof -
  let ?p1 = "JObj [(''merge_variables'', JObj [(''site_title'', JStr ''A''), (''currency'', JStr ''EUR'')])]"
  let ?p2 = "JObj [(''merge_variables'', JObj [(''site_title'', JStr ''B'')])]"
  note t = cache_slot_get [of initial_world ?p1 ?p2]
  have a: "do_GET initial_world ''/data/evcc'' = (404, Some (JObj [(''error'', JStr ''No data collected yet'')]))"
    using t [THEN conjunct1] by (simp add: initial_world_def)
  from store_payload_total obtain w1 where w1: "store_payload ?p1 initial_world = Inr w1" by blast
  from store_payload_total obtain w2 where w2: "store_payload ?p2 w1 = Inr w2" by blast
  have b: "do_GET w1 ''/data/evcc'' = (200, Some (JObj [(''site_title'', JStr ''A''), (''currency'', JStr ''EUR'')]))"
    using t [THEN conjunct2, THEN conjunct1, rule_format, OF w1] by (simp add: dict_get_def)
  have c: "do_GET w2 ''/data/evcc'' = (200, Some (JObj [(''site_title'', JStr ''B'')]))"
    using t [THEN conjunct2, THEN conjunct2, THEN conjunct1, rule_format, of w1 w2] w1 w2
    by (simp add: dict_get_def)
  from a b c w1 w2 show ?thesis by blast
qed

end
